theory Spec2Isabelle
  imports Main "HOL-Library.Word"
begin

section \<open>Pipes (kernel\_pipe.c)\<close>

text \<open>
  A pipe control block as kernel\_pipe.c uses it. The two endpoint handles are pointers to
  file control blocks, \<open>None\<close> for \<open>NULL\<close>. The indices are kept as naturals;
  \<open>counter\<close> is compared with the unsigned length \<open>n\<close>, so it is a 32-bit word.
  \<open>PIPE_BUFFER_SIZE\<close> is declared in a header outside the sources covered here and is
  the parameter \<open>N\<close> of every function below. The two condition variables of the block are named by
  \<open>pipe_cv\<close>; their queues belong to the scheduler.
\<close>

datatype pipe_cv = has_space | has_data

record pipe_cb =
  writer :: "nat option"
  reader :: "nat option"
  BUFFER :: "8 word list"
  w_position :: nat
  r_position :: nat
  counter :: "32 word"

text \<open>
  A call either reaches \<open>kernel_wait\<close> on a condition variable (the pipe is then as the
  waiter left it), or returns a value, having sent the listed broadcasts.
\<close>

datatype pipe_outcome =
    Blocked pipe_cv pipe_cb
  | Returned int "pipe_cb option" "pipe_cv list"

text \<open>The initialisation of a fresh block in \<open>sys_Pipe\<close>; \<open>mem\<close> is the buffer as allocated.\<close>

definition pipe_init :: "nat \<Rightarrow> nat \<Rightarrow> 8 word list \<Rightarrow> pipe_cb" where
  "pipe_init fcb0 fcb1 mem =
     \<lparr>writer = Some fcb1, reader = Some fcb0, BUFFER = mem,
      w_position = 0, r_position = 0, counter = 0\<rparr>"

text \<open>
  One pass through the body of the copy loop of \<open>pipe_write\<close> (lines 90 to 97), storing the
  byte \<open>b\<close>.
\<close>

definition pipe_write_byte :: "nat \<Rightarrow> 8 word \<Rightarrow> pipe_cb \<Rightarrow> pipe_cb" where
  "pipe_write_byte N b p =
     (let p1 = p\<lparr>BUFFER := (BUFFER p)[w_position p := b], counter := counter p + 1\<rparr>;
          p2 = p1\<lparr>w_position := w_position p1 + 1\<rparr>
      in if w_position p2 \<ge> N then p2\<lparr>w_position := 0\<rparr> else p2)"

text \<open>The copy loop of \<open>pipe_write\<close> (lines 88 to 98).\<close>

function pipe_write_copy ::
  "nat \<Rightarrow> (nat \<Rightarrow> 8 word) \<Rightarrow> nat \<Rightarrow> pipe_cb \<Rightarrow> nat \<Rightarrow> pipe_cb \<times> nat" where
  "pipe_write_copy N buf n p written_data =
     (if (w_position p + 1) mod N \<noteq> r_position p \<and> written_data < n then
        pipe_write_copy N buf n (pipe_write_byte N (buf written_data) p) (written_data + 1)
      else (p, written_data))"
  by pat_completeness auto
termination
  by (relation "measure (\<lambda>(N, buf, n, p, written_data). n - written_data)") auto

declare pipe_write_copy.simps [simp del]

text \<open>
  \<open>pipe_write\<close> from the head of its wait loop (line 77): a caller arrives here after the
  entry checks, and a waiter continues here when \<open>kernel_wait\<close> returns.
\<close>

definition pipe_write_resume ::
  "nat \<Rightarrow> pipe_cb \<Rightarrow> (nat \<Rightarrow> 8 word) \<Rightarrow> 32 word \<Rightarrow> pipe_outcome" where
  "pipe_write_resume N p buf n =
     (if (w_position p + 1) mod N = r_position p \<and> reader p \<noteq> None then Blocked has_space p
      else if reader p = None then Returned (- 1) (Some p) []
      else
        let (p1, written_data) = pipe_write_copy N buf (unat n) p 0;
            p2 = (if counter p1 = n - 1 then p1\<lparr>counter := 0\<rparr> else p1)
        in Returned (int written_data) (Some p2) [has_data])"

definition pipe_write ::
  "nat \<Rightarrow> pipe_cb option \<Rightarrow> (nat \<Rightarrow> 8 word) \<Rightarrow> 32 word \<Rightarrow> pipe_outcome" where
  "pipe_write N pipecb_t buf n =
     (case pipecb_t of
        None \<Rightarrow> Returned (- 1) None []
      | Some p \<Rightarrow>
          if writer p = None \<or> reader p = None then Returned (- 1) (Some p) []
          else pipe_write_resume N p buf n)"

text \<open>
  One pass through the body of the copy loop of \<open>pipe_read\<close> (lines 137 to 144), after the
  byte at the read index has been copied out.
\<close>

definition pipe_read_byte :: "nat \<Rightarrow> pipe_cb \<Rightarrow> pipe_cb" where
  "pipe_read_byte N p =
     (let p1 = p\<lparr>counter := counter p + 1\<rparr>;
          p2 = p1\<lparr>r_position := r_position p1 + 1\<rparr>
      in if r_position p2 \<ge> N then p2\<lparr>r_position := 0\<rparr> else p2)"

text \<open>
  The copy loop of \<open>pipe_read\<close> (lines 135 to 145); the bytes stored into the caller's
  buffer are collected in \<open>out\<close>, whose length is \<open>byte_num\<close>.
\<close>

function pipe_read_copy :: "nat \<Rightarrow> nat \<Rightarrow> pipe_cb \<Rightarrow> 8 word list \<Rightarrow> pipe_cb \<times> 8 word list" where
  "pipe_read_copy N n p out =
     (if r_position p \<noteq> w_position p \<and> length out < n then
        pipe_read_copy N n (pipe_read_byte N p) (out @ [BUFFER p ! r_position p])
      else (p, out))"
  by pat_completeness auto
termination
  by (relation "measure (\<lambda>(N, n, p, out). n - length out)") auto

declare pipe_read_copy.simps [simp del]

text \<open>\<open>pipe_read\<close> from the head of its wait loop (line 129).\<close>

definition pipe_read_resume :: "nat \<Rightarrow> pipe_cb \<Rightarrow> 32 word \<Rightarrow> pipe_outcome \<times> 8 word list" where
  "pipe_read_resume N p n =
     (if w_position p = r_position p \<and> writer p \<noteq> None then (Blocked has_data p, [])
      else
        let (p1, out) = pipe_read_copy N (unat n) p [];
            p2 = (if counter p1 = n then p1\<lparr>counter := 0\<rparr> else p1)
        in (Returned (int (length out)) (Some p2) [has_space], out))"

definition pipe_read :: "nat \<Rightarrow> pipe_cb option \<Rightarrow> 32 word \<Rightarrow> pipe_outcome \<times> 8 word list" where
  "pipe_read N pipecb_t n =
     (case pipecb_t of
        None \<Rightarrow> (Returned (- 1) None [], [])
      | Some p \<Rightarrow>
          if reader p = None then (Returned (- 1) (Some p) [], [])
          else pipe_read_resume N p n)"

section \<open>Kernel memory\<close>

text \<open>
  Blocks obtained from \<open>xmalloc\<close> live in a heap per structure type: a list of cells, an
  address being an index. \<open>xmalloc\<close> appends a cell, so a new address is never one handed
  out before; \<open>free\<close> empties the cell. What C leaves undefined is a \<open>fault\<close> here: a
  read through \<open>NULL\<close>, a read of a released block, an array index outside the array, a
  \<open>void*\<close> cast to the wrong structure.
\<close>

datatype fault = NullPointer | Dangling | OutOfBounds | WrongObject

type_synonym 'a heap = "'a option list"

fun bind_fault :: "fault + 'a \<Rightarrow> ('a \<Rightarrow> fault + 'b) \<Rightarrow> fault + 'b" where
  "bind_fault (Inl e) f = Inl e"
| "bind_fault (Inr x) f = f x"

definition deref :: "'a heap \<Rightarrow> nat \<Rightarrow> fault + 'a" where
  "deref h a =
     (if a < length h then (case h ! a of None \<Rightarrow> Inl Dangling | Some x \<Rightarrow> Inr x)
      else Inl Dangling)"

definition xmalloc :: "'a heap \<Rightarrow> 'a \<Rightarrow> 'a heap \<times> nat" where
  "xmalloc h x = (h @ [Some x], length h)"

definition free :: "'a heap \<Rightarrow> nat \<Rightarrow> 'a heap" where
  "free h a = h[a := None]"

section \<open>Sockets (kernel\_socket.h and the socket system calls)\<close>

datatype socket_type = SOCKET_LISTENER | SOCKET_UNBOUND | SOCKET_PEER

text \<open>
  The socket control block. \<open>refcount\<close> is a \<open>uint\<close>. The members of the union are
  separate fields: \<open>queue\<close> for a listener (the addresses of the pending requests, head
  first), \<open>peer\<close>, \<open>write_pipe\<close> and \<open>read_pipe\<close> for a peer.
\<close>

record socket_cb =
  refcount :: "32 word"
  fcb :: nat
  type :: socket_type
  port :: int
  queue :: "nat list"
  peer :: "nat option"
  write_pipe :: "nat option"
  read_pipe :: "nat option"

text \<open>A connection request; \<open>req_peer\<close> is its field \<open>peer\<close>.\<close>

record connection_request =
  admitted :: int
  req_peer :: "nat option"

text \<open>
  What a stream object pointer points to, and the operation tables a file control block
  may carry.
\<close>

datatype stream = PipeObj nat | SocketObj nat

datatype file_ops = reader_file_ops | writer_file_ops | socket_fileops

record FCB =
  streamobj :: "stream option"
  streamfunc :: "file_ops option"

datatype cond_var =
    Req_available nat
  | Connected_cv nat
  | Has_space nat
  | Has_data nat

datatype wakeup = Signal cond_var | Broadcast cond_var

text \<open>
  The kernel state the socket calls work on: the heaps, the file table \<open>FT\<close> (a free slot
  is \<open>None\<close>), the descriptor table \<open>FIDT\<close> of the current process, the port map, and
  the signals and broadcasts sent so far. \<open>PORT_MAP\<close> is declared with \<open>MAX_PORT\<close>
  elements (kernel\_socket.h, line 62) and \<open>FIDT\<close> with \<open>MAX_FILEID\<close>, so the two
  constants are the lengths of the two arrays.
\<close>

record kernel =
  SCB :: "socket_cb heap"
  PIPE :: "pipe_cb heap"
  REQ :: "connection_request heap"
  FT :: "FCB option list"
  FIDT :: "nat option list"
  PORT_MAP :: "nat option list"
  sent :: "wakeup list"

definition MAX_PORT :: "kernel \<Rightarrow> int" where
  "MAX_PORT s = int (length (PORT_MAP s))"

definition MAX_FILEID :: "kernel \<Rightarrow> int" where
  "MAX_FILEID s = int (length (FIDT s))"

text \<open>
  Modelled from the spec: the constants \<open>NOFILE\<close> and \<open>NOPORT\<close> of tinyos.h, a header
  outside the sources covered here. The spec names 0 as the \<open>NOPORT\<close> sentinel and puts
  \<open>NOFILE\<close> beside -1 among the failure values; descriptors are never negative.
\<close>

definition NOFILE :: int where
  "NOFILE = - 1"

definition NOPORT :: int where
  "NOPORT = 0"

text \<open>Reading and writing \<open>PORT_MAP[p]\<close>.\<close>

definition PORT_MAP_at :: "kernel \<Rightarrow> int \<Rightarrow> fault + nat option" where
  "PORT_MAP_at s p =
     (if 0 \<le> p \<and> p < int (length (PORT_MAP s)) then Inr (PORT_MAP s ! nat p)
      else Inl OutOfBounds)"

definition PORT_MAP_put :: "kernel \<Rightarrow> int \<Rightarrow> nat option \<Rightarrow> fault + kernel" where
  "PORT_MAP_put s p v =
     (if 0 \<le> p \<and> p < int (length (PORT_MAP s))
      then Inr (s\<lparr>PORT_MAP := (PORT_MAP s)[nat p := v]\<rparr>)
      else Inl OutOfBounds)"

text \<open>The cast of a stream object to \<open>socket_cb*\<close>.\<close>

fun as_socket :: "stream \<Rightarrow> fault + nat" where
  "as_socket (SocketObj a) = Inr a"
| "as_socket (PipeObj a) = Inl WrongObject"

text \<open>
  Modelled from the spec: \<open>get_fcb\<close> of the stream layer, whose source is outside the
  sources covered here. An fid out of range or an empty entry of the descriptor table of
  the current process gives \<open>NULL\<close>.
\<close>

definition get_fcb :: "kernel \<Rightarrow> int \<Rightarrow> nat option" where
  "get_fcb s fid =
     (if fid < 0 \<or> fid \<ge> MAX_FILEID s then None else FIDT s ! nat fid)"

fun first_free :: "'a option list \<Rightarrow> nat \<Rightarrow> nat option" where
  "first_free [] i = None"
| "first_free (None # xs) i = Some i"
| "first_free (Some x # xs) i = first_free xs (Suc i)"

text \<open>
  Modelled from the spec: \<open>FCB_reserve\<close> of the stream layer, for one descriptor. It
  takes the first free fid of the current process and a free slot of the file table,
  binds them, and fails when either table is full.
\<close>

definition FCB_reserve :: "kernel \<Rightarrow> (nat \<times> nat \<times> kernel) option" where
  "FCB_reserve s =
     (case first_free (FIDT s) 0 of
        None \<Rightarrow> None
      | Some fid \<Rightarrow>
          (case first_free (FT s) 0 of
             None \<Rightarrow> None
           | Some f \<Rightarrow>
               Some (fid, f,
                 s\<lparr>FT := (FT s)[f := Some \<lparr>streamobj = None, streamfunc = None\<rparr>],
                   FIDT := (FIDT s)[fid := Some f]\<rparr>)))"

text \<open>A change to one socket control block in place.\<close>

definition SCB_upd :: "nat \<Rightarrow> (socket_cb \<Rightarrow> socket_cb) \<Rightarrow> kernel \<Rightarrow> fault + kernel" where
  "SCB_upd a f s =
     bind_fault (deref (SCB s) a) (\<lambda>cb. Inr (s\<lparr>SCB := (SCB s)[a := Some (f cb)]\<rparr>))"

definition kernel_signal :: "cond_var \<Rightarrow> kernel \<Rightarrow> kernel" where
  "kernel_signal cv s = s\<lparr>sent := sent s @ [Signal cv]\<rparr>"

definition kernel_broadcast :: "cond_var \<Rightarrow> kernel \<Rightarrow> kernel" where
  "kernel_broadcast cv s = s\<lparr>sent := sent s @ [Broadcast cv]\<rparr>"

text \<open>The two close operations of kernel\_pipe.c, on a block in the heap.\<close>

definition pipe_writer_close :: "nat option \<Rightarrow> kernel \<Rightarrow> fault + int \<times> kernel" where
  "pipe_writer_close pipecb s =
     (case pipecb of
        None \<Rightarrow> Inr (- 1, s)
      | Some a \<Rightarrow>
          bind_fault (deref (PIPE s) a) (\<lambda>p.
            let s1 = s\<lparr>PIPE := (PIPE s)[a := Some (p\<lparr>writer := None\<rparr>)]\<rparr>
            in if reader p = None then Inr (0, s1\<lparr>PIPE := free (PIPE s1) a\<rparr>)
               else Inr (0, kernel_broadcast (Has_data a) s1)))"

definition pipe_reader_close :: "nat option \<Rightarrow> kernel \<Rightarrow> fault + int \<times> kernel" where
  "pipe_reader_close pipecb s =
     (case pipecb of
        None \<Rightarrow> Inr (- 1, s)
      | Some a \<Rightarrow>
          bind_fault (deref (PIPE s) a) (\<lambda>p.
            let s1 = s\<lparr>PIPE := (PIPE s)[a := Some (p\<lparr>reader := None\<rparr>)]\<rparr>
            in if writer p = None then Inr (0, s1\<lparr>PIPE := free (PIPE s1) a\<rparr>)
               else Inr (0, kernel_broadcast (Has_space a) s1)))"

text \<open>\<open>socket_close\<close> (lines 51 to 91).\<close>

definition socket_close :: "nat option \<Rightarrow> kernel \<Rightarrow> fault + int \<times> kernel" where
  "socket_close socket_cb_t s =
     (case socket_cb_t of
        None \<Rightarrow> Inr (- 1, s)
      | Some a \<Rightarrow>
          bind_fault (deref (SCB s) a) (\<lambda>CUR_SOCKET.
          bind_fault
            (if type CUR_SOCKET = SOCKET_LISTENER then
               bind_fault (PORT_MAP_put s (port CUR_SOCKET) None) (\<lambda>s1.
                 Inr (kernel_broadcast (Req_available a) s1))
             else if type CUR_SOCKET = SOCKET_PEER then
               bind_fault
                 (if read_pipe CUR_SOCKET \<noteq> None then
                    bind_fault (pipe_reader_close (read_pipe CUR_SOCKET) s) (\<lambda>(r, s1).
                      SCB_upd a (\<lambda>cb. cb\<lparr>read_pipe := None\<rparr>) s1)
                  else Inr s) (\<lambda>s1.
               bind_fault (deref (SCB s1) a) (\<lambda>cb1.
                 if write_pipe cb1 \<noteq> None then
                   bind_fault (pipe_writer_close (write_pipe cb1) s1) (\<lambda>(r, s2).
                     SCB_upd a (\<lambda>cb. cb\<lparr>write_pipe := None\<rparr>) s2)
                 else Inr s1))
             else Inr s) (\<lambda>s1.
          bind_fault (SCB_upd a (\<lambda>cb. cb\<lparr>refcount := refcount cb - 1\<rparr>) s1) (\<lambda>s2.
          bind_fault (deref (SCB s2) a) (\<lambda>cb2.
            if refcount cb2 = 0 then Inr (0, s2\<lparr>SCB := free (SCB s2) a\<rparr>)
            else Inr (0, s2))))))"

text \<open>
  \<open>sys_Socket\<close> (lines 105 to 137). \<open>mem\<close> is the block as \<open>xmalloc\<close> returns it: the
  call sets four fields and leaves the union as it finds it.
\<close>

definition sys_Socket :: "socket_cb \<Rightarrow> int \<Rightarrow> kernel \<Rightarrow> int \<times> kernel" where
  "sys_Socket mem p s =
     (if p > MAX_PORT s \<or> p < 0 then (NOFILE, s)
      else if (0 :: int) = NOFILE then (NOFILE, s)
      else
        (case FCB_reserve s of
           None \<Rightarrow> (NOFILE, s)
         | Some (fid, f, s1) \<Rightarrow>
             let (h, a) = xmalloc (SCB s1)
                   (mem\<lparr>port := p, refcount := 0, fcb := f, type := SOCKET_UNBOUND\<rparr>)
             in (int fid,
                 s1\<lparr>SCB := h,
                    FT := (FT s1)[f := Some \<lparr>streamobj = Some (SocketObj a),
                                            streamfunc = Some socket_fileops\<rparr>]\<rparr>)))"

text \<open>
  The stream object of a file control block, and the one behind a descriptor as the calls
  below fetch it: \<open>get_fcb\<close>, then \<open>streamobj\<close>. \<open>None\<close> stands for a \<open>NULL\<close> at
  either step; each caller returns its failure value for both.
\<close>

definition fcb_stream :: "kernel \<Rightarrow> nat \<Rightarrow> fault + stream option" where
  "fcb_stream s f = bind_fault (deref (FT s) f) (\<lambda>b. Inr (streamobj b))"

definition fid_stream :: "kernel \<Rightarrow> int \<Rightarrow> fault + stream option" where
  "fid_stream s fid =
     (case get_fcb s fid of
        None \<Rightarrow> Inr None
      | Some f \<Rightarrow> fcb_stream s f)"

text \<open>\<open>sys_Listen\<close> (lines 140 to 176).\<close>

definition sys_Listen :: "int \<Rightarrow> kernel \<Rightarrow> fault + int \<times> kernel" where
  "sys_Listen sock s =
     (if get_fcb s sock = None then Inr (- 1, s)
      else if sock = NOFILE then Inr (- 1, s)
      else
        bind_fault (fid_stream s sock) (\<lambda>obj.
          case obj of
            None \<Rightarrow> Inr (- 1, s)
          | Some x \<Rightarrow>
              bind_fault (as_socket x) (\<lambda>a.
              bind_fault (deref (SCB s) a) (\<lambda>s_cb.
                if port s_cb < 0 \<or> port s_cb > MAX_PORT s then Inr (- 1, s)
                else
                  bind_fault (PORT_MAP_at s (port s_cb)) (\<lambda>e.
                    if e \<noteq> None then Inr (- 1, s)
                    else if port s_cb = NOPORT then Inr (- 1, s)
                    else if type s_cb \<noteq> SOCKET_UNBOUND then Inr (- 1, s)
                    else
                      bind_fault (PORT_MAP_put s (port s_cb) (Some a)) (\<lambda>s1.
                      bind_fault
                        (SCB_upd a (\<lambda>cb. cb\<lparr>type := SOCKET_LISTENER, queue := []\<rparr>) s1)
                        (\<lambda>s2. Inr (0, s2))))))))"

text \<open>
  A call that may sleep runs in pieces: from its entry to the first suspension point, and
  from each wake-up to the next one or to the return.
\<close>

datatype syscall_step = Wait cond_var kernel | Return int kernel

text \<open>
  \<open>sys_Accept\<close> from line 238 to its return: both sockets become peers, the two pipes are
  allocated and linked, the request is admitted and its waiter signalled, and the
  listener's count is decremented. \<open>pmem1\<close> and \<open>pmem2\<close> are the two blocks as
  \<open>xmalloc\<close> returns them.
\<close>

definition sys_Accept_wire ::
  "pipe_cb \<Rightarrow> pipe_cb \<Rightarrow> nat \<Rightarrow> nat \<Rightarrow> nat \<Rightarrow> nat \<Rightarrow> int \<Rightarrow> kernel \<Rightarrow> fault + syscall_step" where
  "sys_Accept_wire pmem1 pmem2 this_socket this_request socket_cb1 socket_cb2 s1_fid s =
     bind_fault (SCB_upd socket_cb1 (\<lambda>cb. cb\<lparr>type := SOCKET_PEER\<rparr>) s) (\<lambda>s3.
     bind_fault (SCB_upd socket_cb2 (\<lambda>cb. cb\<lparr>type := SOCKET_PEER\<rparr>) s3) (\<lambda>s4.
     bind_fault (deref (SCB s4) socket_cb1) (\<lambda>c1.
     bind_fault (deref (SCB s4) socket_cb2) (\<lambda>c2.
       let (h1, this_1st_Pipe) = xmalloc (PIPE s4)
             (pmem1\<lparr>writer := Some (fcb c2), reader := Some (fcb c1),
                    w_position := 0, r_position := 0\<rparr>);
           (h2, this_2nd_Pipe) = xmalloc h1
             (pmem2\<lparr>writer := Some (fcb c1), reader := Some (fcb c2),
                    w_position := 0, r_position := 0\<rparr>);
           s5 = s4\<lparr>PIPE := h2\<rparr>
       in
         bind_fault (SCB_upd socket_cb1
            (\<lambda>cb. cb\<lparr>peer := Some socket_cb2,
                        read_pipe := Some this_1st_Pipe,
                        write_pipe := Some this_2nd_Pipe\<rparr>) s5) (\<lambda>s6.
         bind_fault (SCB_upd socket_cb2
            (\<lambda>cb. cb\<lparr>peer := Some socket_cb1,
                        read_pipe := Some this_2nd_Pipe,
                        write_pipe := Some this_1st_Pipe\<rparr>) s6) (\<lambda>s7.
         bind_fault (deref (REQ s7) this_request) (\<lambda>rq.
           let s8 = kernel_signal (Connected_cv this_request)
                      (s7\<lparr>REQ := (REQ s7)[this_request := Some (rq\<lparr>admitted := 1\<rparr>)]\<rparr>)
           in
             bind_fault (SCB_upd this_socket (\<lambda>cb. cb\<lparr>refcount := refcount cb - 1\<rparr>) s8)
               (\<lambda>s9. Inr (Return s1_fid s9)))))))))"

text \<open>
  \<open>sys_Accept\<close> from line 208, with a request at hand or the loop left: the checks that
  precede the admission. \<open>mem\<close> is the block \<open>sys_Socket\<close> gets from \<open>xmalloc\<close>. A pop
  from an empty queue yields the list head, whose request pointer is \<open>NULL\<close>. The
  descriptor of the new socket is looked up before \<open>s1\<close> is compared with \<open>NOFILE\<close>,
  and the block is read after.
\<close>

definition sys_Accept_admit ::
  "socket_cb \<Rightarrow> pipe_cb \<Rightarrow> pipe_cb \<Rightarrow> nat \<Rightarrow> kernel \<Rightarrow> fault + syscall_step" where
  "sys_Accept_admit mem pmem1 pmem2 this_socket s =
     bind_fault (deref (SCB s) this_socket) (\<lambda>l.
     bind_fault (PORT_MAP_at s (port l)) (\<lambda>e.
       if e = None then Inr (Return NOFILE s)
       else
         (case queue l of
            [] \<Rightarrow> Inl NullPointer
          | this_request # rest \<Rightarrow>
              bind_fault (SCB_upd this_socket (\<lambda>cb. cb\<lparr>queue := rest\<rparr>) s) (\<lambda>s1.
              bind_fault (deref (REQ s1) this_request) (\<lambda>rq.
                case req_peer rq of
                  None \<Rightarrow> Inr (Return NOFILE s1)
                | Some socket_cb1 \<Rightarrow>
                    bind_fault (deref (SCB s1) socket_cb1) (\<lambda>c1.
                      if type c1 \<noteq> SOCKET_UNBOUND then Inr (Return NOFILE s1)
                      else
                        let (s1_fid, s2) = sys_Socket mem (port c1) s1
                        in if s1_fid = NOFILE then Inr (Return NOFILE s2)
                           else
                             bind_fault
                               (case get_fcb s2 s1_fid of
                                  None \<Rightarrow> Inl NullPointer
                                | Some S2 \<Rightarrow> fcb_stream s2 S2) (\<lambda>obj.
                               case obj of
                                 None \<Rightarrow> Inr (Return NOFILE s2)
                               | Some x \<Rightarrow>
                                   bind_fault (as_socket x) (\<lambda>socket_cb2.
                                     sys_Accept_wire pmem1 pmem2 this_socket this_request
                                       socket_cb1 socket_cb2 s1_fid s2))))))))"

text \<open>
  \<open>sys_Accept\<close> from the head of its wait loop (line 200): the place a caller reaches after
  the entry checks and the increment, and the place a waiter continues from.
\<close>

definition sys_Accept_resume ::
  "socket_cb \<Rightarrow> pipe_cb \<Rightarrow> pipe_cb \<Rightarrow> nat \<Rightarrow> kernel \<Rightarrow> fault + syscall_step" where
  "sys_Accept_resume mem pmem1 pmem2 this_socket s =
     bind_fault (deref (SCB s) this_socket) (\<lambda>l.
       if queue l = [] \<and> refcount l \<noteq> 0 then
         bind_fault (PORT_MAP_at s (port l)) (\<lambda>e.
           if e = None then Inr (Return NOFILE s)
           else Inr (Wait (Req_available this_socket) s))
       else sys_Accept_admit mem pmem1 pmem2 this_socket s)"

text \<open>\<open>sys_Accept\<close> from its entry (lines 179 to 197) to the wait loop.\<close>

definition sys_Accept ::
  "socket_cb \<Rightarrow> pipe_cb \<Rightarrow> pipe_cb \<Rightarrow> int \<Rightarrow> kernel \<Rightarrow> fault + syscall_step" where
  "sys_Accept mem pmem1 pmem2 lsock s =
     bind_fault (fid_stream s lsock) (\<lambda>obj.
       case obj of
         None \<Rightarrow> Inr (Return NOFILE s)
       | Some x \<Rightarrow>
           bind_fault (as_socket x) (\<lambda>this_socket.
           bind_fault (deref (SCB s) this_socket) (\<lambda>l.
             if port l < 0 \<or> port l > MAX_PORT s then Inr (Return NOFILE s)
             else if type l \<noteq> SOCKET_LISTENER then Inr (Return NOFILE s)
             else
               bind_fault (SCB_upd this_socket (\<lambda>cb. cb\<lparr>refcount := refcount cb + 1\<rparr>) s)
                 (sys_Accept_resume mem pmem1 pmem2 this_socket))))"

text \<open>
  \<open>sys_Connect\<close> from its entry to \<open>kernel_timedwait\<close> (lines 286 to 339). The request is
  the block the call waits on, named by the condition variable of the step.
\<close>

definition sys_Connect :: "int \<Rightarrow> int \<Rightarrow> kernel \<Rightarrow> fault + syscall_step" where
  "sys_Connect sock p s =
     bind_fault (fid_stream s sock) (\<lambda>obj.
       case obj of
         None \<Rightarrow> Inr (Return (- 1) s)
       | Some x \<Rightarrow>
           bind_fault (as_socket x) (\<lambda>socket.
           bind_fault (deref (SCB s) socket) (\<lambda>c.
             if type c \<noteq> SOCKET_UNBOUND then Inr (Return (- 1) s)
             else if p < 0 \<or> p > MAX_PORT s then Inr (Return (- 1) s)
             else
               bind_fault (PORT_MAP_at s p) (\<lambda>e.
                 case e of
                   None \<Rightarrow> Inr (Return (- 1) s)
                 | Some listener \<Rightarrow>
                     bind_fault (SCB_upd socket (\<lambda>cb. cb\<lparr>refcount := refcount cb + 1\<rparr>) s) (\<lambda>s1.
                       let (h, connect) = xmalloc (REQ s1) \<lparr>admitted = 0, req_peer = Some socket\<rparr>;
                           s2 = s1\<lparr>REQ := h\<rparr>
                       in
                         bind_fault (SCB_upd listener (\<lambda>cb. cb\<lparr>queue := queue cb @ [connect]\<rparr>) s2) (\<lambda>s3.
                           Inr (Wait (Connected_cv connect)
                                  (kernel_signal (Req_available listener) s3))))))))"

text \<open>
  \<open>sys_Connect\<close> from the return of \<open>kernel_timedwait\<close> (lines 339 to 375);
  \<open>in_time\<close> is what the wait returned.
\<close>

definition sys_Connect_resume :: "nat \<Rightarrow> nat \<Rightarrow> bool \<Rightarrow> kernel \<Rightarrow> fault + syscall_step" where
  "sys_Connect_resume socket connect in_time s =
     (if \<not> in_time then Inr (Return (- 1) s)
      else
        let s1 = s\<lparr>REQ := free (REQ s) connect\<rparr>
        in
          bind_fault (deref (SCB s1) socket) (\<lambda>c.
            if refcount c = 0 then Inr (Return (- 1) (s1\<lparr>SCB := free (SCB s1) socket\<rparr>))
            else
              bind_fault (SCB_upd socket (\<lambda>cb. cb\<lparr>refcount := refcount cb - 1\<rparr>) s1) (\<lambda>s2.
              bind_fault (deref (REQ s2) connect) (\<lambda>rq.
                if admitted rq = 0 then Inr (Return (- 1) s2) else Inr (Return 0 s2)))))"

text \<open>\<open>sys_ShutDown\<close> (lines 378 to 436). A mode outside the enumeration is \<open>SHUTDOWN_OTHER\<close>.\<close>

datatype shutdown_mode = SHUTDOWN_READ | SHUTDOWN_WRITE | SHUTDOWN_BOTH | SHUTDOWN_OTHER

definition shut_read :: "nat \<Rightarrow> kernel \<Rightarrow> fault + kernel" where
  "shut_read socket s =
     bind_fault (deref (SCB s) socket) (\<lambda>c.
       if read_pipe c \<noteq> None then
         bind_fault (pipe_reader_close (read_pipe c) s) (\<lambda>(r, s1).
           SCB_upd socket (\<lambda>cb. cb\<lparr>read_pipe := None\<rparr>) s1)
       else Inr s)"

definition shut_write :: "nat \<Rightarrow> kernel \<Rightarrow> fault + kernel" where
  "shut_write socket s =
     bind_fault (deref (SCB s) socket) (\<lambda>c.
       if write_pipe c \<noteq> None then
         bind_fault (pipe_writer_close (write_pipe c) s) (\<lambda>(r, s1).
           SCB_upd socket (\<lambda>cb. cb\<lparr>write_pipe := None\<rparr>) s1)
       else Inr s)"

definition sys_ShutDown :: "int \<Rightarrow> shutdown_mode \<Rightarrow> kernel \<Rightarrow> fault + int \<times> kernel" where
  "sys_ShutDown sock how s =
     (if get_fcb s sock = None \<or> sock < 0 \<or> sock > MAX_FILEID s then Inr (- 1, s)
      else
        bind_fault (fid_stream s sock) (\<lambda>obj.
          case obj of
            None \<Rightarrow> Inr (- 1, s)
          | Some x \<Rightarrow>
              bind_fault (as_socket x) (\<lambda>socket.
              bind_fault (deref (SCB s) socket) (\<lambda>c.
                if type c \<noteq> SOCKET_PEER then Inr (- 1, s)
                else
                  (case how of
                     SHUTDOWN_READ \<Rightarrow>
                       bind_fault (shut_read socket s) (\<lambda>s1. Inr (0, s1))
                   | SHUTDOWN_WRITE \<Rightarrow>
                       bind_fault (shut_write socket s) (\<lambda>s1. Inr (0, s1))
                   | SHUTDOWN_BOTH \<Rightarrow>
                       bind_fault (shut_read socket s) (\<lambda>s1.
                       bind_fault (shut_write socket s1) (\<lambda>s2. Inr (0, s2)))
                   | SHUTDOWN_OTHER \<Rightarrow> Inr (- 1, s))))))"

section \<open>Runs of a pipe\<close>

text \<open>
  The pieces of \<open>pipe_write\<close> and \<open>pipe_read\<close> that run without a suspension inside:
  a call from its entry, and a waiter from its wake-up. Each ends at \<open>kernel_wait\<close> or
  at the return.
\<close>

datatype pipe_call =
    Write "nat \<Rightarrow> 8 word" "32 word"
  | WriteWake "nat \<Rightarrow> 8 word" "32 word"
  | Read "32 word"
  | ReadWake "32 word"

fun pipe_segment :: "nat \<Rightarrow> pipe_cb \<Rightarrow> pipe_call \<Rightarrow> pipe_outcome" where
  "pipe_segment N p (Write buf n) = pipe_write N (Some p) buf n"
| "pipe_segment N p (WriteWake buf n) = pipe_write_resume N p buf n"
| "pipe_segment N p (Read n) = fst (pipe_read N (Some p) n)"
| "pipe_segment N p (ReadWake n) = fst (pipe_read_resume N p n)"

fun is_write :: "pipe_call \<Rightarrow> bool" where
  "is_write (Write buf n) = True"
| "is_write (WriteWake buf n) = True"
| "is_write (Read n) = False"
| "is_write (ReadWake n) = False"

text \<open>The number of bytes a piece reports as moved: its return value, when it returns one.\<close>

fun moved :: "pipe_outcome \<Rightarrow> nat" where
  "moved (Blocked cv p) = 0"
| "moved (Returned v p bs) = nat v"

text \<open>The pipe as a piece leaves it, at its suspension point or at its return.\<close>

fun pipe_left :: "pipe_cb \<Rightarrow> pipe_outcome \<Rightarrow> pipe_cb" where
  "pipe_left p (Blocked cv p') = p'"
| "pipe_left p (Returned v None bs) = p"
| "pipe_left p (Returned v (Some p') bs) = p'"

text \<open>
  A run: the pieces one after the other on the same pipe, with the totals of the bytes
  the writes and the reads have returned so far.
\<close>

fun pipe_run :: "nat \<Rightarrow> pipe_call list \<Rightarrow> pipe_cb \<times> nat \<times> nat \<Rightarrow> pipe_cb \<times> nat \<times> nat" where
  "pipe_run N [] st = st"
| "pipe_run N (c # cs) (p, wr, rd) =
     (let r = pipe_segment N p c
      in pipe_run N cs
           (pipe_left p r,
            if is_write c then wr + moved r else wr,
            if is_write c then rd else rd + moved r))"

text \<open>The bytes in the ring, read off the two indices, and the range of the indices.\<close>

definition ring_count :: "nat \<Rightarrow> pipe_cb \<Rightarrow> nat" where
  "ring_count N p =
     (if r_position p \<le> w_position p then w_position p - r_position p
      else w_position p + N - r_position p)"

definition ring_ok :: "nat \<Rightarrow> pipe_cb \<Rightarrow> bool" where
  "ring_ok N p = (r_position p < N \<and> w_position p < N)"

definition ring_inv :: "nat \<Rightarrow> pipe_cb \<times> nat \<times> nat \<Rightarrow> bool" where
  "ring_inv N st = (case st of (p, wr, rd) \<Rightarrow> ring_ok N p \<and> rd \<le> wr \<and> wr - rd = ring_count N p)"

text \<open>Pipes of four bytes for the examples: a full one and a fresh one.\<close>

definition full_pipe :: pipe_cb where
  "full_pipe = \<lparr>writer = Some 1, reader = Some 0, BUFFER = [1, 2, 3, 0],
      w_position = 3, r_position = 0, counter = 3\<rparr>"

definition idle_pipe :: pipe_cb where
  "idle_pipe = pipe_init 0 1 [0, 0, 0, 0]"

definition no_bytes :: "nat \<Rightarrow> 8 word" where
  "no_bytes i = 0"

section \<open>Processes and threads (kernel\_proc.h and the thread system calls)\<close>

datatype pid_state = FREE | ALIVE | ZOMBIE

text \<open>
  The per-thread block, with the fields the join, detach and exit calls read and write.
  Its \<open>exitval\<close> and \<open>refcount\<close> carry the prefix \<open>ptcb_\<close>, the plain names being
  taken by other structures.
\<close>

record PTCB =
  ptcb_exitval :: int
  exited :: int
  detached :: int
  ptcb_refcount :: int

text \<open>
  The process control block. A pointer to a block is the pid, its index in the process
  table \<open>PT\<close>; the intrusive lists are lists of pids, and \<open>ptcb_list\<close> a list of
  addresses of thread blocks. The descriptor table is \<open>p_FIDT\<close>.
\<close>

record PCB =
  pstate :: pid_state
  parent :: "nat option"
  exitval :: int
  main_thread :: "nat option"
  args :: "8 word list option"
  children_list :: "nat list"
  exited_list :: "nat list"
  p_FIDT :: "nat option list"
  ptcb_list :: "nat list"
  thread_count :: int

datatype proc_cv = child_exit nat | exit_cv nat

text \<open>
  The state of the process layer: the table, the heap of thread blocks, the broadcasts
  sent so far, and the file control blocks handed to \<open>FCB_decref\<close> so far (the call
  itself belongs to the stream layer).
\<close>

record procs =
  PT :: "PCB list"
  PTCBS :: "PTCB heap"
  broadcasts :: "proc_cv list"
  decrefs :: "nat list"

datatype proc_fault = Memory fault | AssertionFailed

fun bind_proc :: "proc_fault + 'a \<Rightarrow> ('a \<Rightarrow> proc_fault + 'b) \<Rightarrow> proc_fault + 'b" where
  "bind_proc (Inl e) f = Inl e"
| "bind_proc (Inr x) f = f x"

definition PCB_at :: "procs \<Rightarrow> nat \<Rightarrow> proc_fault + PCB" where
  "PCB_at s pid = (if pid < length (PT s) then Inr (PT s ! pid) else Inl (Memory OutOfBounds))"

definition PCB_upd :: "nat \<Rightarrow> (PCB \<Rightarrow> PCB) \<Rightarrow> procs \<Rightarrow> proc_fault + procs" where
  "PCB_upd pid f s =
     (if pid < length (PT s) then Inr (s\<lparr>PT := (PT s)[pid := f (PT s ! pid)]\<rparr>)
      else Inl (Memory OutOfBounds))"

definition PTCB_at :: "procs \<Rightarrow> nat \<Rightarrow> proc_fault + PTCB" where
  "PTCB_at s a = (case deref (PTCBS s) a of Inl e \<Rightarrow> Inl (Memory e) | Inr p \<Rightarrow> Inr p)"

definition PTCB_upd :: "nat \<Rightarrow> (PTCB \<Rightarrow> PTCB) \<Rightarrow> procs \<Rightarrow> proc_fault + procs" where
  "PTCB_upd a f s =
     bind_proc (PTCB_at s a) (\<lambda>p. Inr (s\<lparr>PTCBS := (PTCBS s)[a := Some (f p)]\<rparr>))"

definition proc_broadcast :: "proc_cv \<Rightarrow> procs \<Rightarrow> procs" where
  "proc_broadcast cv s = s\<lparr>broadcasts := broadcasts s @ [cv]\<rparr>"

text \<open>\<open>get_pcb\<close>: \<open>NULL\<close> for a free slot.\<close>

definition get_pcb :: "procs \<Rightarrow> nat \<Rightarrow> proc_fault + nat option" where
  "get_pcb s pid =
     bind_proc (PCB_at s pid) (\<lambda>pcb. Inr (if pstate pcb = FREE then None else Some pid))"

text \<open>
  \<open>rlist_remove\<close> on the list node of a thread block takes the block out of the list it
  is on; a node is on one list at most.
\<close>

definition unlink_ptcb :: "nat \<Rightarrow> procs \<Rightarrow> procs" where
  "unlink_ptcb a s =
     s\<lparr>PT := map (\<lambda>pcb. pcb\<lparr>ptcb_list := removeAll a (ptcb_list pcb)\<rparr>) (PT s)\<rparr>"

text \<open>
  A step of \<open>sys_ThreadJoin\<close>: it sleeps on the exit condition variable of the target, or
  returns a value, with what it stored through the pointer \<open>exitval\<close> (\<open>None\<close> when it
  stored nothing).
\<close>

datatype join_step = JoinWait proc_cv procs | JoinReturn int "int option" procs

text \<open>
  \<open>sys_ThreadJoin\<close> from the head of its wait loop (line 550) to the next suspension or
  to the return. \<open>out\<close> says that the pointer \<open>exitval\<close> is not \<open>NULL\<close>.
\<close>

definition sys_ThreadJoin_resume :: "nat \<Rightarrow> bool \<Rightarrow> procs \<Rightarrow> proc_fault + join_step" where
  "sys_ThreadJoin_resume tid out s =
     bind_proc (PTCB_at s tid) (\<lambda>ptcb.
       if exited ptcb \<noteq> 1 \<and> detached ptcb \<noteq> 1 then Inr (JoinWait (exit_cv tid) s)
       else
         bind_proc (PTCB_upd tid (\<lambda>p. p\<lparr>ptcb_refcount := ptcb_refcount p - 1\<rparr>) s) (\<lambda>s1.
         bind_proc (PTCB_at s1 tid) (\<lambda>p1.
           if detached p1 = 1 then Inr (JoinReturn (- 1) None s1)
           else
             let stored = (if out then Some (ptcb_exitval p1) else None)
             in if ptcb_refcount p1 = 0
                then Inr (JoinReturn 0 stored
                            ((unlink_ptcb tid s1)\<lparr>PTCBS := free (PTCBS s1) tid\<rparr>))
                else Inr (JoinReturn 0 stored s1))))"

text \<open>
  \<open>sys_ThreadJoin\<close> from its entry (lines 523 to 546). \<open>curproc\<close> is the pid of the
  current process and \<open>cur\<close> the thread block of the calling thread.
\<close>

definition sys_ThreadJoin :: "nat \<Rightarrow> nat \<Rightarrow> nat \<Rightarrow> bool \<Rightarrow> procs \<Rightarrow> proc_fault + join_step" where
  "sys_ThreadJoin curproc cur tid out s =
     bind_proc (PCB_at s curproc) (\<lambda>pcb.
       if tid \<notin> set (ptcb_list pcb) then Inr (JoinReturn (- 1) None s)
       else if tid = cur then Inr (JoinReturn (- 1) None s)
       else
         bind_proc (PTCB_at s tid) (\<lambda>ptcb.
           if detached ptcb = 1 then Inr (JoinReturn (- 1) None s)
           else
             bind_proc (PTCB_upd tid (\<lambda>p. p\<lparr>ptcb_refcount := ptcb_refcount p + 1\<rparr>) s)
               (sys_ThreadJoin_resume tid out)))"

text \<open>\<open>sys_ThreadDetach\<close> (lines 581 to 604).\<close>

definition sys_ThreadDetach :: "nat \<Rightarrow> nat \<Rightarrow> procs \<Rightarrow> proc_fault + int \<times> procs" where
  "sys_ThreadDetach curproc tid s =
     bind_proc (PCB_at s curproc) (\<lambda>pcb.
       if tid \<notin> set (ptcb_list pcb) then Inr (- 1, s)
       else
         bind_proc (PTCB_at s tid) (\<lambda>temp.
           if exited temp = 1 then Inr (- 1, s)
           else
             bind_proc (PTCB_upd tid (\<lambda>p. p\<lparr>detached := 1\<rparr>) s) (\<lambda>s1.
               Inr (0, proc_broadcast (exit_cv tid) s1))))"

text \<open>
  The loop of \<open>sys_ThreadExit\<close> that hands the children to the initial process (lines 635
  to 639), over the children list of the exiting process, which is not the initial one.
\<close>

fun reparent :: "nat option \<Rightarrow> nat \<Rightarrow> nat list \<Rightarrow> procs \<Rightarrow> proc_fault + procs" where
  "reparent initpcb curproc [] s = Inr s"
| "reparent initpcb curproc (child # rest) s =
     bind_proc (PCB_upd curproc (\<lambda>p. p\<lparr>children_list := rest\<rparr>) s) (\<lambda>s1.
     bind_proc (PCB_upd child (\<lambda>p. p\<lparr>parent := initpcb\<rparr>) s1) (\<lambda>s2.
       case initpcb of
         None \<Rightarrow> Inl (Memory NullPointer)
       | Some i \<Rightarrow>
           bind_proc (PCB_upd i (\<lambda>p. p\<lparr>children_list := child # children_list p\<rparr>) s2)
             (reparent initpcb curproc rest)))"

text \<open>Lines 631 to 652: what the last thread of a process other than the initial one does.\<close>

definition orphan_handover :: "nat \<Rightarrow> procs \<Rightarrow> proc_fault + procs" where
  "orphan_handover curproc s =
     bind_proc (get_pcb s 1) (\<lambda>initpcb.
     bind_proc (PCB_at s curproc) (\<lambda>pcb.
     bind_proc (reparent initpcb curproc (children_list pcb) s) (\<lambda>s1.
     bind_proc (PCB_at s1 curproc) (\<lambda>pcb1.
     bind_proc
       (if exited_list pcb1 \<noteq> [] then
          (case initpcb of
             None \<Rightarrow> Inl (Memory NullPointer)
           | Some i \<Rightarrow>
               bind_proc (PCB_upd i (\<lambda>p. p\<lparr>exited_list := exited_list p @ exited_list pcb1\<rparr>) s1) (\<lambda>s2.
               bind_proc (PCB_upd curproc (\<lambda>p. p\<lparr>exited_list := []\<rparr>) s2) (\<lambda>s3.
                 Inr (proc_broadcast (child_exit i) s3))))
        else Inr s1) (\<lambda>s4.
       case parent pcb1 of
         None \<Rightarrow> Inl (Memory NullPointer)
       | Some pp \<Rightarrow>
           bind_proc (PCB_upd pp (\<lambda>p. p\<lparr>exited_list := curproc # exited_list p\<rparr>) s4) (\<lambda>s5.
             Inr (proc_broadcast (child_exit pp) s5)))))))"

text \<open>Lines 654 to 689: the two assertions and the release of what the process holds.\<close>

definition process_cleanup :: "nat \<Rightarrow> procs \<Rightarrow> proc_fault + procs" where
  "process_cleanup curproc s =
     bind_proc (PCB_at s curproc) (\<lambda>pcb.
       if children_list pcb \<noteq> [] \<or> exited_list pcb \<noteq> [] then Inl AssertionFailed
       else
         bind_proc
           (PCB_upd curproc
              (\<lambda>p. p\<lparr>args := None,
                      p_FIDT := map (\<lambda>e. None) (p_FIDT p),
                      ptcb_list := [],
                      main_thread := None,
                      pstate := ZOMBIE\<rparr>) s) (\<lambda>s1.
           Inr (s1\<lparr>PTCBS := fold (\<lambda>a h. free h a) (ptcb_list pcb) (PTCBS s1),
                    decrefs := decrefs s1 @ List.map_filter id (p_FIDT pcb)\<rparr>)))"

text \<open>
  \<open>sys_ThreadExit\<close> (lines 611 to 696), up to \<open>kernel_sleep\<close>, from which the thread does
  not come back. \<open>curproc\<close> is the pid of the current process and \<open>cur\<close> the thread block
  of the calling thread.
\<close>

definition sys_ThreadExit :: "nat \<Rightarrow> nat \<Rightarrow> int \<Rightarrow> procs \<Rightarrow> proc_fault + procs" where
  "sys_ThreadExit curproc cur v s =
     bind_proc (PTCB_upd cur (\<lambda>p. p\<lparr>ptcb_exitval := v, exited := 1\<rparr>) s) (\<lambda>s1.
     bind_proc (PCB_upd curproc (\<lambda>p. p\<lparr>thread_count := thread_count p - 1\<rparr>)
                  (proc_broadcast (exit_cv cur) s1)) (\<lambda>s2.
     bind_proc (PCB_at s2 curproc) (\<lambda>pcb.
       if thread_count pcb = 0 then
         bind_proc (if curproc \<noteq> 1 then orphan_handover curproc s2 else Inr s2)
           (process_cleanup curproc)
       else Inr s2)))"

text \<open>
  What a successful \<open>sys_Accept\<close> on the listener \<open>L\<close> leaves behind, from the state
  \<open>s\<close> it started in to the state \<open>s'\<close> it returns in with the descriptor \<open>fid\<close>. \<open>C\<close>
  is the connecting socket named by the request at the head of the queue, \<open>S\<close> the one new
  socket, \<open>A\<close> and \<open>B\<close> the two new pipes.
\<close>

definition accept_wired :: "nat \<Rightarrow> kernel \<Rightarrow> int \<Rightarrow> kernel \<Rightarrow> bool" where
  "accept_wired L s fid s' =
     (case deref (SCB s) L of Inl e \<Rightarrow> False | Inr l \<Rightarrow>
      case queue l of [] \<Rightarrow> False | r # rest \<Rightarrow>
      case deref (REQ s) r of Inl e \<Rightarrow> False | Inr rq \<Rightarrow>
      case req_peer rq of None \<Rightarrow> False | Some C \<Rightarrow>
        let S = length (SCB s); A = length (PIPE s); B = Suc A in
        case deref (SCB s') C of Inl e \<Rightarrow> False | Inr cC \<Rightarrow>
        case deref (SCB s') S of Inl e \<Rightarrow> False | Inr cS \<Rightarrow>
        case deref (PIPE s') A of Inl e \<Rightarrow> False | Inr pA \<Rightarrow>
        case deref (PIPE s') B of Inl e \<Rightarrow> False | Inr pB \<Rightarrow>
          length (SCB s') = Suc (length (SCB s)) \<and>
          length (PIPE s') = length (PIPE s) + 2 \<and>
          take (length (PIPE s)) (PIPE s') = PIPE s \<and>
          get_fcb s' fid = Some (fcb cS) \<and>
          fid_stream s' fid = Inr (Some (SocketObj S)) \<and>
          writer pA = Some (fcb cS) \<and> reader pA = Some (fcb cC) \<and>
          writer pB = Some (fcb cC) \<and> reader pB = Some (fcb cS) \<and>
          read_pipe cC = Some A \<and> write_pipe cC = Some B \<and>
          read_pipe cS = Some B \<and> write_pipe cS = Some A \<and>
          type cC = SOCKET_PEER \<and> type cS = SOCKET_PEER \<and>
          peer cC = Some S \<and> peer cS = Some C)"

text \<open>A pipe of four bytes holding two, and a buffer of the caller.\<close>

definition half_pipe :: pipe_cb where
  "half_pipe = \<lparr>writer = Some 1, reader = Some 0, BUFFER = [1, 2, 0, 0],
      w_position = 2, r_position = 0, counter = 2\<rparr>"

definition some_bytes :: "nat \<Rightarrow> 8 word" where
  "some_bytes i = 65 + word_of_nat i"

text \<open>The same pipe with the writer gone and drained, and one whose reader is gone.\<close>

definition drained_pipe :: pipe_cb where
  "drained_pipe = \<lparr>writer = None, reader = Some 0, BUFFER = [1, 2, 0, 0],
      w_position = 2, r_position = 2, counter = 4\<rparr>"

definition orphan_pipe :: pipe_cb where
  "orphan_pipe = \<lparr>writer = Some 1, reader = None, BUFFER = [1, 2, 0, 0],
      w_position = 2, r_position = 0, counter = 2\<rparr>"

text \<open>A run on a fresh pipe of four bytes: the first write is cut short, the last read sleeps.\<close>

definition busy_run :: "pipe_call list" where
  "busy_run = [Write some_bytes 5, Read 2, WriteWake some_bytes 5, Read 10, Read 1]"

text \<open>
  Blocks as \<open>xmalloc\<close> may return them, with whatever was there before, and a kernel
  with room for three descriptors and a port map of four entries, nothing in use.
\<close>

definition scb_mem :: socket_cb where
  "scb_mem = \<lparr>refcount = 7, fcb = 9, type = SOCKET_LISTENER, port = 5, queue = [3],
      peer = Some 8, write_pipe = Some 6, read_pipe = Some 4\<rparr>"

definition pipe_mem :: pipe_cb where
  "pipe_mem = \<lparr>writer = None, reader = Some 5, BUFFER = [1, 2, 3, 4],
      w_position = 2, r_position = 3, counter = 9\<rparr>"

definition boot :: kernel where
  "boot = \<lparr>SCB = [], PIPE = [], REQ = [], FT = [None, None, None],
      FIDT = [None, None, None], PORT_MAP = [None, None, None, None], sent = []\<rparr>"

text \<open>
  The kernel after \<open>sys_Socket(2)\<close>, \<open>sys_Listen\<close> on it and \<open>sys_Socket(0)\<close>: a listener
  on port 2 behind descriptor 0 and an unbound socket behind descriptor 1.
\<close>

definition listener_scb :: socket_cb where
  "listener_scb = scb_mem\<lparr>refcount := 0, fcb := 0, type := SOCKET_LISTENER, port := 2, queue := []\<rparr>"

definition caller_scb :: socket_cb where
  "caller_scb = scb_mem\<lparr>refcount := 0, fcb := 1, type := SOCKET_UNBOUND, port := 0\<rparr>"

definition socket_fcb :: "nat \<Rightarrow> FCB" where
  "socket_fcb a = \<lparr>streamobj = Some (SocketObj a), streamfunc = Some socket_fileops\<rparr>"

definition listening :: kernel where
  "listening = boot\<lparr>SCB := [Some listener_scb, Some caller_scb],
      FT := [Some (socket_fcb 0), Some (socket_fcb 1), None],
      FIDT := [Some 0, Some 1, None],
      PORT_MAP := [None, None, Some 0, None]\<rparr>"

text \<open>The same kernel with one and with two calls of \<open>sys_Connect\<close> asleep on the listener.\<close>

definition pending :: kernel where
  "pending = listening\<lparr>SCB := [Some (listener_scb\<lparr>queue := [0]\<rparr>), Some (caller_scb\<lparr>refcount := 1\<rparr>)],
      REQ := [Some \<lparr>admitted = 0, req_peer = Some 1\<rparr>],
      sent := [Signal (Req_available 0)]\<rparr>"

definition twice_pending :: kernel where
  "twice_pending = listening\<lparr>SCB := [Some (listener_scb\<lparr>queue := [0, 1]\<rparr>), Some (caller_scb\<lparr>refcount := 2\<rparr>)],
      REQ := [Some \<lparr>admitted = 0, req_peer = Some 1\<rparr>, Some \<lparr>admitted = 0, req_peer = Some 1\<rparr>],
      sent := [Signal (Req_available 0), Signal (Req_available 0)]\<rparr>"

text \<open>
  After \<open>sys_Accept\<close> has admitted the first of the two requests: socket 2 is the server
  side, behind descriptor 2, and pipes 0 and 1 join it to socket 1.
\<close>

definition connected :: kernel where
  "connected = twice_pending\<lparr>
      SCB := [Some (listener_scb\<lparr>queue := [1]\<rparr>),
              Some (caller_scb\<lparr>refcount := 2, type := SOCKET_PEER, peer := Some 2,
                               write_pipe := Some 1, read_pipe := Some 0\<rparr>),
              Some (scb_mem\<lparr>refcount := 0, fcb := 2, type := SOCKET_PEER, port := 0, peer := Some 1,
                            write_pipe := Some 0, read_pipe := Some 1\<rparr>)],
      PIPE := [Some (pipe_mem\<lparr>writer := Some 2, reader := Some 1, w_position := 0, r_position := 0\<rparr>),
               Some (pipe_mem\<lparr>writer := Some 1, reader := Some 2, w_position := 0, r_position := 0\<rparr>)],
      REQ := [Some \<lparr>admitted = 1, req_peer = Some 1\<rparr>, Some \<lparr>admitted = 0, req_peer = Some 1\<rparr>],
      FT := [Some (socket_fcb 0), Some (socket_fcb 1), Some (socket_fcb 2)],
      FIDT := [Some 0, Some 1, Some 2],
      sent := [Signal (Req_available 0), Signal (Req_available 0), Signal (Connected_cv 0)]\<rparr>"

text \<open>After a second \<open>sys_Accept\<close>, which finds the second request naming a socket that is a peer by now.\<close>

definition refused :: kernel where
  "refused = connected\<lparr>
      SCB := [Some (listener_scb\<lparr>refcount := 1\<rparr>),
              Some (caller_scb\<lparr>refcount := 2, type := SOCKET_PEER, peer := Some 2,
                               write_pipe := Some 1, read_pipe := Some 0\<rparr>),
              Some (scb_mem\<lparr>refcount := 0, fcb := 2, type := SOCKET_PEER, port := 0, peer := Some 1,
                            write_pipe := Some 0, read_pipe := Some 1\<rparr>)]\<rparr>"

text \<open>After \<open>sys_ShutDown\<close> of both directions on descriptor 1 of \<open>connected\<close>.\<close>

definition shut_down :: kernel where
  "shut_down = connected\<lparr>
      SCB := [Some (listener_scb\<lparr>queue := [1]\<rparr>),
              Some (caller_scb\<lparr>refcount := 2, type := SOCKET_PEER, peer := Some 2,
                               write_pipe := None, read_pipe := None\<rparr>),
              Some (scb_mem\<lparr>refcount := 0, fcb := 2, type := SOCKET_PEER, port := 0, peer := Some 1,
                            write_pipe := Some 0, read_pipe := Some 1\<rparr>)],
      PIPE := [Some (pipe_mem\<lparr>writer := Some 2, reader := None, w_position := 0, r_position := 0\<rparr>),
               Some (pipe_mem\<lparr>writer := None, reader := Some 2, w_position := 0, r_position := 0\<rparr>)],
      sent := [Signal (Req_available 0), Signal (Req_available 0), Signal (Connected_cv 0),
               Broadcast (Has_space 0), Broadcast (Has_data 1)]\<rparr>"

text \<open>A newborn socket on port 2 in the empty kernel, and the same after \<open>socket_close\<close>.\<close>

definition born :: kernel where
  "born = boot\<lparr>SCB := [Some (scb_mem\<lparr>refcount := 0, fcb := 0, type := SOCKET_UNBOUND, port := 2\<rparr>)],
      FT := [Some (socket_fcb 0), None, None],
      FIDT := [Some 0, None, None]\<rparr>"

definition closed :: kernel where
  "closed = born\<lparr>SCB := [Some (scb_mem\<lparr>refcount := - 1, fcb := 0, type := SOCKET_UNBOUND, port := 2\<rparr>)]\<rparr>"

text \<open>The pipe at the end of \<open>busy_run\<close>.\<close>

definition rested_pipe :: pipe_cb where
  "rested_pipe = \<lparr>writer = Some 1, reader = Some 0, BUFFER = [66, 66, 67, 65],
      w_position = 1, r_position = 1, counter = 0\<rparr>"

text \<open>
  A process table of seven: the scheduler, the initial process, and below it process 2
  with child 3, which has the living child 4 and the zombie child 5; process 4 has the
  child 6. Process 2 runs two threads, with the thread blocks 2 and 3; the threads of
  processes 3, 4 and 6 have the blocks 0, 1 and 4.
\<close>

definition blank_pcb :: PCB where
  "blank_pcb = \<lparr>pstate = ALIVE, parent = None, exitval = 0, main_thread = None, args = None,
      children_list = [], exited_list = [], p_FIDT = [None, None], ptcb_list = [],
      thread_count = 0\<rparr>"

definition blank_ptcb :: PTCB where
  "blank_ptcb = \<lparr>ptcb_exitval = 0, exited = 0, detached = 0, ptcb_refcount = 0\<rparr>"

definition family :: procs where
  "family = \<lparr>PT =
      [blank_pcb,
       blank_pcb\<lparr>children_list := [2], thread_count := 1\<rparr>,
       blank_pcb\<lparr>parent := Some 1, children_list := [3], ptcb_list := [2, 3], thread_count := 2\<rparr>,
       blank_pcb\<lparr>parent := Some 2, children_list := [4, 5], exited_list := [5],
                  p_FIDT := [Some 7, None], ptcb_list := [0], thread_count := 1\<rparr>,
       blank_pcb\<lparr>parent := Some 3, children_list := [6], ptcb_list := [1], thread_count := 1\<rparr>,
       blank_pcb\<lparr>pstate := ZOMBIE, parent := Some 3, exitval := 9\<rparr>,
       blank_pcb\<lparr>parent := Some 4, ptcb_list := [4], thread_count := 1\<rparr>],
     PTCBS = [Some blank_ptcb, Some blank_ptcb, Some blank_ptcb, Some blank_ptcb, Some blank_ptcb],
     broadcasts = [], decrefs = []\<rparr>"

text \<open>
  The same table with thread 3 of process 2 asleep in a join on thread 2; then with
  thread 2 exited with the value 7; then with the join returned.
\<close>

definition joining :: procs where
  "joining = family\<lparr>PTCBS := (PTCBS family)[2 := Some (blank_ptcb\<lparr>ptcb_refcount := 1\<rparr>)]\<rparr>"

definition departed :: procs where
  "departed = joining\<lparr>
      PT := (PT joining)[2 := (PT joining ! 2)\<lparr>thread_count := 1\<rparr>],
      PTCBS := (PTCBS joining)[2 := Some \<lparr>ptcb_exitval = 7, exited = 1, detached = 0,
                                           ptcb_refcount = 1\<rparr>],
      broadcasts := [exit_cv 2]\<rparr>"

definition reaped :: procs where
  "reaped = departed\<lparr>
      PT := (PT departed)[2 := (PT departed ! 2)\<lparr>ptcb_list := [3]\<rparr>],
      PTCBS := (PTCBS departed)[2 := None]\<rparr>"

section \<open>Properties of the pipe\<close>

lemma pipe_write_copy_zero: "pipe_write_copy N buf 0 p 0 = (p, 0)"
  by (simp add: pipe_write_copy.simps)

lemma pipe_read_copy_zero: "pipe_read_copy N 0 p [] = (p, [])"
  by (simp add: pipe_read_copy.simps)

lemma pipe_read_copy_drained:
  "r_position p = w_position p \<Longrightarrow> pipe_read_copy N n p [] = (p, [])"
  by (simp add: pipe_read_copy.simps)

lemma pipe_write_byte_ring:
  assumes "ring_ok N p" and "(w_position p + 1) mod N \<noteq> r_position p"
  shows "ring_ok N (pipe_write_byte N b p)"
    and "ring_count N (pipe_write_byte N b p) = ring_count N p + 1"
    and "writer (pipe_write_byte N b p) = writer p"
    and "reader (pipe_write_byte N b p) = reader p"
    and "r_position (pipe_write_byte N b p) = r_position p"
proof -
  show "writer (pipe_write_byte N b p) = writer p" "reader (pipe_write_byte N b p) = reader p"
    "r_position (pipe_write_byte N b p) = r_position p"
    by (simp_all add: pipe_write_byte_def Let_def)
  show "ring_ok N (pipe_write_byte N b p)"
    using assms by (auto simp: pipe_write_byte_def Let_def ring_ok_def)
  show "ring_count N (pipe_write_byte N b p) = ring_count N p + 1"
  proof (cases "N \<le> w_position p + 1")
    case True
    with assms(1) have N: "N = w_position p + 1" by (simp add: ring_ok_def)
    with assms(2) have "r_position p \<noteq> 0" by (metis mod_self)
    with N assms(1) show ?thesis
      by (simp add: pipe_write_byte_def Let_def ring_count_def ring_ok_def)
  next
    case False
    with assms show ?thesis
      by (auto simp: pipe_write_byte_def Let_def ring_count_def ring_ok_def)
  qed
qed

lemma pipe_write_copy_ring:
  "ring_ok N p \<Longrightarrow> pipe_write_copy N buf n p k = (p', k') \<Longrightarrow>
     ring_ok N p' \<and> k \<le> k' \<and> ring_count N p' = ring_count N p + (k' - k)
     \<and> writer p' = writer p \<and> reader p' = reader p"
proof (induction N buf n p k rule: pipe_write_copy.induct)
  case (1 N buf n p k)
  show ?case
  proof (cases "(w_position p + 1) mod N \<noteq> r_position p \<and> k < n")
    case False
    with "1.prems" show ?thesis
      by (auto simp: pipe_write_copy.simps)
  next
    case True
    let ?q = "pipe_write_byte N (buf k) p"
    have step: "pipe_write_copy N buf n ?q (k + 1) = (p', k')"
      using True "1.prems"(2) by (subst (asm) pipe_write_copy.simps) simp
    have q: "ring_ok N ?q" "ring_count N ?q = ring_count N p + 1"
      "writer ?q = writer p" "reader ?q = reader p"
      using True "1.prems"(1) pipe_write_byte_ring[of N p "buf k"] by blast+
    from "1.IH"[OF True q(1) step] q show ?thesis by auto
  qed
qed

lemma pipe_read_byte_ring:
  assumes "ring_ok N p" and "r_position p \<noteq> w_position p"
  shows "ring_ok N (pipe_read_byte N p)"
    and "ring_count N (pipe_read_byte N p) + 1 = ring_count N p"
    and "writer (pipe_read_byte N p) = writer p"
    and "reader (pipe_read_byte N p) = reader p"
  using assms by (auto simp: pipe_read_byte_def Let_def ring_count_def ring_ok_def)

lemma pipe_read_copy_ring:
  "ring_ok N p \<Longrightarrow> pipe_read_copy N n p out = (p', out') \<Longrightarrow>
     ring_ok N p' \<and> length out \<le> length out'
     \<and> ring_count N p' + (length out' - length out) = ring_count N p
     \<and> writer p' = writer p \<and> reader p' = reader p"
proof (induction N n p out rule: pipe_read_copy.induct)
  case (1 N n p out)
  show ?case
  proof (cases "r_position p \<noteq> w_position p \<and> length out < n")
    case False
    with "1.prems" show ?thesis
      by (auto simp: pipe_read_copy.simps)
  next
    case True
    let ?q = "pipe_read_byte N p"
    have step: "pipe_read_copy N n ?q (out @ [BUFFER p ! r_position p]) = (p', out')"
      using True "1.prems"(2) by (subst (asm) pipe_read_copy.simps) simp
    have q: "ring_ok N ?q" "ring_count N ?q + 1 = ring_count N p"
      "writer ?q = writer p" "reader ?q = reader p"
      using True "1.prems"(1) pipe_read_byte_ring[of N p] by blast+
    from "1.IH"[OF True q(1) step] q show ?thesis by auto
  qed
qed


lemma pipe_write_resume_ring:
  assumes "ring_ok N p"
  shows "ring_ok N (pipe_left p (pipe_write_resume N p buf n))
    \<and> ring_count N (pipe_left p (pipe_write_resume N p buf n))
        = ring_count N p + moved (pipe_write_resume N p buf n)"
proof (cases "((w_position p + 1) mod N = r_position p \<and> reader p \<noteq> None) \<or> reader p = None")
  case True
  with assms show ?thesis by (auto simp: pipe_write_resume_def)
next
  case False
  obtain p1 k where c: "pipe_write_copy N buf (unat n) p 0 = (p1, k)" by fastforce
  from pipe_write_copy_ring[OF assms c] False c show ?thesis
    by (auto simp: pipe_write_resume_def ring_ok_def ring_count_def)
qed

lemma pipe_write_ring:
  assumes "ring_ok N p"
  shows "ring_ok N (pipe_left p (pipe_write N (Some p) buf n))
    \<and> ring_count N (pipe_left p (pipe_write N (Some p) buf n))
        = ring_count N p + moved (pipe_write N (Some p) buf n)"
  using pipe_write_resume_ring[OF assms, of buf n] assms
  by (auto simp: pipe_write_def)

lemma pipe_read_resume_ring:
  assumes "ring_ok N p"
  shows "ring_ok N (pipe_left p (fst (pipe_read_resume N p n)))
    \<and> ring_count N (pipe_left p (fst (pipe_read_resume N p n)))
        + moved (fst (pipe_read_resume N p n)) = ring_count N p"
proof (cases "w_position p = r_position p \<and> writer p \<noteq> None")
  case True
  with assms show ?thesis by (auto simp: pipe_read_resume_def)
next
  case False
  obtain p1 out where c: "pipe_read_copy N (unat n) p [] = (p1, out)" by fastforce
  from pipe_read_copy_ring[OF assms c] False c show ?thesis
    by (auto simp: pipe_read_resume_def ring_ok_def ring_count_def)
qed

lemma pipe_read_ring:
  assumes "ring_ok N p"
  shows "ring_ok N (pipe_left p (fst (pipe_read N (Some p) n)))
    \<and> ring_count N (pipe_left p (fst (pipe_read N (Some p) n)))
        + moved (fst (pipe_read N (Some p) n)) = ring_count N p"
  using pipe_read_resume_ring[OF assms, of n] assms
  by (auto simp: pipe_read_def)

lemma pipe_run_ring: "ring_inv N st \<Longrightarrow> ring_inv N (pipe_run N cs st)"
proof (induction cs arbitrary: st)
  case Nil
  then show ?case by simp
next
  case (Cons c cs)
  obtain p wr rd where st: "st = (p, wr, rd)" by (cases st) auto
  with Cons.prems have ok: "ring_ok N p" and le: "rd \<le> wr" and cnt: "wr - rd = ring_count N p"
    by (simp_all add: ring_inv_def)
  have "ring_inv N (pipe_left p (pipe_segment N p c),
            if is_write c then wr + moved (pipe_segment N p c) else wr,
            if is_write c then rd else rd + moved (pipe_segment N p c))"
  proof (cases c)
    case (Write buf n)
    with pipe_write_ring[OF ok, of buf n] le cnt show ?thesis by (simp add: ring_inv_def)
  next
    case (WriteWake buf n)
    with pipe_write_resume_ring[OF ok, of buf n] le cnt show ?thesis by (simp add: ring_inv_def)
  next
    case (Read n)
    with pipe_read_ring[OF ok, of n] le cnt show ?thesis by (auto simp add: ring_inv_def)
  next
    case (ReadWake n)
    with pipe_read_resume_ring[OF ok, of n] le cnt show ?thesis by (auto simp add: ring_inv_def)
  qed
  then show ?case using Cons.IH st by (simp add: Let_def)
qed

lemma ring_count_mod:
  "ring_ok N p \<Longrightarrow> ring_count N p = (w_position p + N - r_position p) mod N"
  by (auto simp: ring_ok_def ring_count_def le_mod_geq)

lemma ring_count_full:
  "ring_ok N p \<Longrightarrow> (ring_count N p = N - 1) = ((w_position p + 1) mod N = r_position p)"
  apply (auto simp: ring_ok_def ring_count_def mod_Suc split: if_splits)
  done

text \<open>
  C6. Ring-index invariant. Take a pipe whose two indices are 0, as \<open>sys_Pipe\<close> and
  \<open>sys_Accept\<close> create it, and any sequence of calls and wake-ups of \<open>pipe_write\<close> and
  \<open>pipe_read\<close> on it. Where the sequence stops, at a suspension point or at a return,
  both indices are below \<open>PIPE_BUFFER_SIZE\<close>, and the bytes written and not yet read
  are \<open>(w - r) mod N\<close> many: none iff \<open>r = w\<close>, and \<open>N - 1\<close> iff
  \<open>(w + 1) mod N = r\<close>.
\<close>

theorem ring_index_invariant:
  assumes "0 < N" and "r_position p0 = 0" and "w_position p0 = 0"
    and "pipe_run N calls (p0, 0, 0) = (p, wr, rd)"
  shows "r_position p < N \<and> w_position p < N \<and> rd \<le> wr
     \<and> wr - rd = (w_position p + N - r_position p) mod N
     \<and> (wr = rd \<longleftrightarrow> r_position p = w_position p)
     \<and> (wr - rd = N - 1 \<longleftrightarrow> (w_position p + 1) mod N = r_position p)"
proof -
  have "ring_inv N (p0, 0, 0)"
    using assms(1-3) by (simp add: ring_inv_def ring_ok_def ring_count_def)
  then have "ring_inv N (p, wr, rd)"
    using pipe_run_ring[of N "(p0, 0, 0)" calls] assms(4) by simp
  then have ok: "ring_ok N p" and le: "rd \<le> wr" and cnt: "wr - rd = ring_count N p"
    by (simp_all add: ring_inv_def)
  have "(wr = rd) = (r_position p = w_position p)"
    using ok le cnt by (auto simp: ring_ok_def ring_count_def split: if_splits)
  then show ?thesis
    using ok le cnt ring_count_mod[OF ok] ring_count_full[OF ok]
    by (simp add: ring_ok_def)
qed

lemma busy_run_result: "pipe_run 4 busy_run (idle_pipe, 0, 0) = (rested_pipe, 5, 5)"
  by code_simp

theorem ring_index_invariant_witness:
  "pipe_run 4 busy_run (idle_pipe, 0, 0) = (rested_pipe, 5, 5)
   \<and> r_position rested_pipe < 4 \<and> w_position rested_pipe < 4 \<and> (5::nat) \<le> 5
   \<and> (5::nat) - 5 = (w_position rested_pipe + 4 - r_position rested_pipe) mod 4
   \<and> ((5::nat) = 5 \<longleftrightarrow> r_position rested_pipe = w_position rested_pipe)
   \<and> ((5::nat) - 5 = 4 - 1 \<longleftrightarrow> (w_position rested_pipe + 1) mod 4 = r_position rested_pipe)"
proof -
  have n: "0 < (4::nat)" by simp
  have r: "r_position idle_pipe = 0" and w: "w_position idle_pipe = 0"
    by (simp_all add: idle_pipe_def pipe_init_def)
  from ring_index_invariant[OF n r w busy_run_result] busy_run_result show ?thesis
    by blast
qed

text \<open>
  C4, as the code has it. On a pipe with both ends open, \<open>pipe_write\<close> with \<open>n = 0\<close>
  returns 0 without waiting when the ring is not full, and sleeps on \<open>has_space\<close> when it
  is full; \<open>pipe_read\<close> with \<open>n = 0\<close> returns 0 without waiting when the ring is not
  empty, and sleeps on \<open>has_data\<close> when it is empty. The wait loops come before the copy
  loops and do not look at \<open>n\<close>.
\<close>

theorem zero_length_io:
  assumes "writer p \<noteq> None" and "reader p \<noteq> None"
  shows "pipe_write N (Some p) buf 0 =
           (if (w_position p + 1) mod N = r_position p then Blocked has_space p
            else Returned 0 (Some (if counter p = - 1 then p\<lparr>counter := 0\<rparr> else p)) [has_data])
       \<and> pipe_read N (Some p) 0 =
           (if w_position p = r_position p then (Blocked has_data p, [])
            else (Returned 0 (Some (if counter p = 0 then p\<lparr>counter := 0\<rparr> else p)) [has_space], []))"
  using assms
  by (auto simp: pipe_write_def pipe_write_resume_def pipe_read_def pipe_read_resume_def
      pipe_write_copy_zero pipe_read_copy_zero)

theorem zero_length_io_witness:
  "writer half_pipe \<noteq> None \<and> reader half_pipe \<noteq> None
   \<and> pipe_write 4 (Some half_pipe) no_bytes 0 = Returned 0 (Some half_pipe) [has_data]
   \<and> pipe_read 4 (Some half_pipe) 0 = (Returned 0 (Some half_pipe) [has_space], [])"
  using zero_length_io[of half_pipe 4 no_bytes]
  by (simp add: half_pipe_def)

text \<open>
  C4 as stated fails: on a full ring with both ends open \<open>pipe_write\<close> with \<open>n = 0\<close>
  reaches \<open>kernel_wait\<close>, and so does \<open>pipe_read\<close> with \<open>n = 0\<close> on an empty ring.
\<close>

theorem zero_length_io_counterexample:
  "pipe_write 4 (Some full_pipe) no_bytes 0 = Blocked has_space full_pipe
   \<and> pipe_read 4 (Some idle_pipe) 0 = (Blocked has_data idle_pipe, [])"
  by (simp add: pipe_write_def pipe_write_resume_def pipe_read_def pipe_read_resume_def
      full_pipe_def idle_pipe_def pipe_init_def)

text \<open>
  C5. Half-close return values. On a pipe half closed by its writer (the writer handle
  \<open>NULL\<close>, the reader's own handle not) and drained, \<open>pipe_read\<close> returns 0, from its
  entry and from a wake-up alike; with the reader handle \<open>NULL\<close>, \<open>pipe_write\<close> returns
  -1, from its entry and from a wake-up alike. A pipe with both handles \<open>NULL\<close> is one
  the second close has freed.
\<close>

theorem half_close_returns:
  assumes "writer p = None" and "reader p \<noteq> None" and "r_position p = w_position p"
    and "reader q = None"
  shows "pipe_read N (Some p) n =
           (Returned 0 (Some (if counter p = n then p\<lparr>counter := 0\<rparr> else p)) [has_space], [])
       \<and> pipe_read_resume N p n =
           (Returned 0 (Some (if counter p = n then p\<lparr>counter := 0\<rparr> else p)) [has_space], [])
       \<and> pipe_write N (Some q) buf m = Returned (- 1) (Some q) []
       \<and> pipe_write_resume N q buf m = Returned (- 1) (Some q) []"
  using assms
  by (simp add: pipe_write_def pipe_write_resume_def pipe_read_def pipe_read_resume_def
      pipe_read_copy_drained)

theorem half_close_returns_witness:
  "writer drained_pipe = None \<and> reader drained_pipe \<noteq> None
   \<and> r_position drained_pipe = w_position drained_pipe \<and> reader orphan_pipe = None
   \<and> pipe_read 4 (Some drained_pipe) 3 = (Returned 0 (Some drained_pipe) [has_space], [])
   \<and> pipe_read_resume 4 drained_pipe 3 = (Returned 0 (Some drained_pipe) [has_space], [])
   \<and> pipe_write 4 (Some orphan_pipe) some_bytes 3 = Returned (- 1) (Some orphan_pipe) []
   \<and> pipe_write_resume 4 orphan_pipe some_bytes 3 = Returned (- 1) (Some orphan_pipe) []"
  using half_close_returns[of drained_pipe orphan_pipe 4 3 some_bytes 3]
  by (simp add: drained_pipe_def orphan_pipe_def)

section \<open>Properties of the socket calls\<close>

lemma bind_fault_Inr: "(bind_fault m f = Inr y) = (\<exists>x. m = Inr x \<and> f x = Inr y)"
  by (cases m) auto

lemma deref_Inr: "(deref h a = Inr x) = (a < length h \<and> h ! a = Some x)"
  by (auto simp: deref_def split: option.splits)

lemma SCB_upd_Inr:
  "(SCB_upd a f s = Inr s') =
     (\<exists>cb. deref (SCB s) a = Inr cb \<and> s' = s\<lparr>SCB := (SCB s)[a := Some (f cb)]\<rparr>)"
  by (auto simp: SCB_upd_def bind_fault_Inr)

lemma pipe_reader_close_frame:
  "pipe_reader_close q s = Inr (r, s') \<Longrightarrow>
     SCB s' = SCB s \<and> FT s' = FT s \<and> FIDT s' = FIDT s \<and> REQ s' = REQ s \<and> PORT_MAP s' = PORT_MAP s"
  by (auto simp: pipe_reader_close_def bind_fault_Inr kernel_broadcast_def Let_def
      split: option.splits if_splits)

lemma pipe_writer_close_frame:
  "pipe_writer_close q s = Inr (r, s') \<Longrightarrow>
     SCB s' = SCB s \<and> FT s' = FT s \<and> FIDT s' = FIDT s \<and> REQ s' = REQ s \<and> PORT_MAP s' = PORT_MAP s"
  by (auto simp: pipe_writer_close_def bind_fault_Inr kernel_broadcast_def Let_def
      split: option.splits if_splits)

lemma fid_stream_cong:
  "FT s' = FT s \<Longrightarrow> FIDT s' = FIDT s \<Longrightarrow> fid_stream s' fid = fid_stream s fid"
  by (auto simp: fid_stream_def fcb_stream_def get_fcb_def MAX_FILEID_def split: option.splits)

lemma get_fcb_cong: "FIDT s' = FIDT s \<Longrightarrow> get_fcb s' fid = get_fcb s fid"
  by (simp add: get_fcb_def MAX_FILEID_def)

lemma deref_same: "a < length h \<Longrightarrow> deref (h[a := Some x]) a = Inr x"
  by (simp add: deref_def)

lemma shut_read_result:
  assumes "shut_read a s = Inr s1" and "deref (SCB s) a = Inr c"
  shows "FT s1 = FT s \<and> FIDT s1 = FIDT s
       \<and> deref (SCB s1) a = Inr (c\<lparr>read_pipe := None\<rparr>)
       \<and> shut_read a s1 = Inr s1"
proof (cases "read_pipe c")
  case None
  with assms have "s1 = s" by (simp add: shut_read_def)
  moreover have "c\<lparr>read_pipe := None\<rparr> = c" using None by simp
  ultimately show ?thesis using assms(2) None by (simp add: shut_read_def)
next
  case (Some rp)
  with assms obtain r s' where cl: "pipe_reader_close (Some rp) s = Inr (r, s')"
    and up: "SCB_upd a (\<lambda>cb. cb\<lparr>read_pipe := None\<rparr>) s' = Inr s1"
    by (auto simp: shut_read_def bind_fault_Inr)
  from pipe_reader_close_frame[OF cl] assms(2) up
  have s1: "s1 = s'\<lparr>SCB := (SCB s)[a := Some (c\<lparr>read_pipe := None\<rparr>)]\<rparr>"
    by (auto simp: SCB_upd_Inr)
  with pipe_reader_close_frame[OF cl] assms(2) show ?thesis
    by (simp add: shut_read_def deref_Inr deref_same)
qed

lemma shut_write_result:
  assumes "shut_write a s = Inr s1" and "deref (SCB s) a = Inr c"
  shows "FT s1 = FT s \<and> FIDT s1 = FIDT s
       \<and> deref (SCB s1) a = Inr (c\<lparr>write_pipe := None\<rparr>)
       \<and> shut_write a s1 = Inr s1"
proof (cases "write_pipe c")
  case None
  with assms have "s1 = s" by (simp add: shut_write_def)
  moreover have "c\<lparr>write_pipe := None\<rparr> = c" using None by simp
  ultimately show ?thesis using assms(2) None by (simp add: shut_write_def)
next
  case (Some rp)
  with assms obtain r s' where cl: "pipe_writer_close (Some rp) s = Inr (r, s')"
    and up: "SCB_upd a (\<lambda>cb. cb\<lparr>write_pipe := None\<rparr>) s' = Inr s1"
    by (auto simp: shut_write_def bind_fault_Inr)
  from pipe_writer_close_frame[OF cl] assms(2) up
  have s1: "s1 = s'\<lparr>SCB := (SCB s)[a := Some (c\<lparr>write_pipe := None\<rparr>)]\<rparr>"
    by (auto simp: SCB_upd_Inr)
  with pipe_writer_close_frame[OF cl] assms(2) show ?thesis
    by (simp add: shut_write_def deref_Inr deref_same)
qed

lemma shut_read_idle:
  "deref (SCB s) a = Inr c \<Longrightarrow> read_pipe c = None \<Longrightarrow> shut_read a s = Inr s"
  by (simp add: shut_read_def)

lemma shut_write_idle:
  "deref (SCB s) a = Inr c \<Longrightarrow> write_pipe c = None \<Longrightarrow> shut_write a s = Inr s"
  by (simp add: shut_write_def)

text \<open>
  C10. ShutDown is idempotent per direction. On a descriptor of a peer socket and with
  one of the three modes, a call of \<open>sys_ShutDown\<close> that returns has returned 0, and the
  same call made again returns 0 and leaves the whole kernel state, the socket control
  block included, as the first call left it: the pipe pointers it would close are
  \<open>NULL\<close> by then.
\<close>

theorem shutdown_idempotent:
  assumes sock: "fid_stream s sock = Inr (Some (SocketObj a))"
    and c: "deref (SCB s) a = Inr c"
    and peer: "type c = SOCKET_PEER"
    and how: "how \<noteq> SHUTDOWN_OTHER"
    and first: "sys_ShutDown sock how s = Inr (r, s1)"
  shows "r = 0 \<and> sys_ShutDown sock how s1 = Inr (0, s1)"
proof -
  have ok: "\<not> (get_fcb s sock = None \<or> sock < 0 \<or> sock > MAX_FILEID s)"
    using sock by (auto simp: fid_stream_def get_fcb_def split: if_splits option.splits)
  have again: "sys_ShutDown sock how s1 = Inr (0, s1)"
    if "FT s1 = FT s" "FIDT s1 = FIDT s" "deref (SCB s1) a = Inr c1" "type c1 = SOCKET_PEER"
      "case how of SHUTDOWN_READ \<Rightarrow> shut_read a s1 = Inr s1
       | SHUTDOWN_WRITE \<Rightarrow> shut_write a s1 = Inr s1
       | SHUTDOWN_BOTH \<Rightarrow> shut_read a s1 = Inr s1 \<and> shut_write a s1 = Inr s1
       | SHUTDOWN_OTHER \<Rightarrow> False" for c1
  proof -
    have "fid_stream s1 sock = Inr (Some (SocketObj a))"
      using sock fid_stream_cong[OF that(1,2)] by simp
    moreover have "\<not> (get_fcb s1 sock = None \<or> sock < 0 \<or> sock > MAX_FILEID s1)"
      using ok get_fcb_cong[OF that(2), of sock] that(2) by (simp add: MAX_FILEID_def)
    ultimately show ?thesis
      using that(3-5) by (cases how) (simp_all add: sys_ShutDown_def)
  qed
  show ?thesis
  proof (cases how)
    case SHUTDOWN_READ
    with first ok sock c peer have sr: "shut_read a s = Inr s1" and r: "r = 0"
      by (auto simp: sys_ShutDown_def bind_fault_Inr)
    from shut_read_result[OF sr c] peer SHUTDOWN_READ r show ?thesis
      by (intro conjI again[of "c\<lparr>read_pipe := None\<rparr>"]) simp_all
  next
    case SHUTDOWN_WRITE
    with first ok sock c peer have sr: "shut_write a s = Inr s1" and r: "r = 0"
      by (auto simp: sys_ShutDown_def bind_fault_Inr)
    from shut_write_result[OF sr c] peer SHUTDOWN_WRITE r show ?thesis
      by (intro conjI again[of "c\<lparr>write_pipe := None\<rparr>"]) simp_all
  next
    case SHUTDOWN_BOTH
    with first ok sock c peer obtain s' where sr: "shut_read a s = Inr s'"
      and sw: "shut_write a s' = Inr s1" and r: "r = 0"
      by (auto simp: sys_ShutDown_def bind_fault_Inr)
    note R = shut_read_result[OF sr c]
    then have c': "deref (SCB s') a = Inr (c\<lparr>read_pipe := None\<rparr>)" by simp
    note W = shut_write_result[OF sw c']
    then have c1: "deref (SCB s1) a = Inr (c\<lparr>read_pipe := None, write_pipe := None\<rparr>)" by simp
    have "shut_read a s1 = Inr s1"
      using shut_read_idle[OF c1] by simp
    with R W c1 peer SHUTDOWN_BOTH r show ?thesis
      by (intro conjI again[of "c\<lparr>read_pipe := None, write_pipe := None\<rparr>"]) simp_all
  next
    case SHUTDOWN_OTHER
    with how show ?thesis by simp
  qed
qed

lemmas fixtures = boot_def scb_mem_def pipe_mem_def listener_scb_def caller_scb_def socket_fcb_def
  listening_def pending_def twice_pending_def connected_def refused_def shut_down_def born_def
  closed_def

lemmas sock_defs = sys_Socket_def FCB_reserve_def sys_Listen_def sys_Accept_def
  sys_Accept_resume_def sys_Accept_admit_def sys_Accept_wire_def sys_Connect_def
  sys_Connect_resume_def sys_ShutDown_def shut_read_def shut_write_def pipe_reader_close_def
  pipe_writer_close_def socket_close_def fid_stream_def fcb_stream_def get_fcb_def
  MAX_FILEID_def MAX_PORT_def NOFILE_def NOPORT_def deref_def SCB_upd_def xmalloc_def free_def
  PORT_MAP_at_def PORT_MAP_put_def kernel_signal_def kernel_broadcast_def

text \<open>The example states are what the calls make of the empty kernel.\<close>

lemma born_reached: "sys_Socket scb_mem 2 boot = (0, born)"
  by (simp add: sock_defs fixtures)

lemma closed_reached: "socket_close (Some 0) born = Inr (0, closed)"
  by (simp add: sock_defs fixtures)

lemma listening_reached:
  "sys_Listen 0 born =
     Inr (0, born\<lparr>SCB := [Some listener_scb], PORT_MAP := [None, None, Some 0, None]\<rparr>)
   \<and> sys_Socket scb_mem 0
         (born\<lparr>SCB := [Some listener_scb], PORT_MAP := [None, None, Some 0, None]\<rparr>)
       = (1, listening)"
  by (simp add: sock_defs fixtures)

lemma pending_reached: "sys_Connect 1 2 listening = Inr (Wait (Connected_cv 0) pending)"
  by (simp add: sock_defs fixtures)

lemma timed_out: "sys_Connect_resume 1 0 False pending = Inr (Return (- 1) pending)"
  by (simp add: sock_defs fixtures)

lemma twice_pending_reached: "sys_Connect 1 2 pending = Inr (Wait (Connected_cv 1) twice_pending)"
  by (simp add: sock_defs fixtures)

lemma connected_reached:
  "sys_Accept scb_mem pipe_mem pipe_mem 0 twice_pending = Inr (Return 2 connected)"
  by (simp add: sock_defs fixtures)

lemma refused_reached:
  "sys_Accept scb_mem pipe_mem pipe_mem 0 connected = Inr (Return NOFILE refused)"
  by (simp add: sock_defs fixtures)

lemma shut_down_reached: "sys_ShutDown 1 SHUTDOWN_BOTH connected = Inr (0, shut_down)"
  by (simp add: sock_defs fixtures)

theorem shutdown_idempotent_witness:
  "fid_stream connected 1 = Inr (Some (SocketObj 1))
   \<and> map_sum id type (deref (SCB connected) 1) = Inr SOCKET_PEER
   \<and> sys_ShutDown 1 SHUTDOWN_BOTH connected = Inr (0, shut_down)
   \<and> sys_ShutDown 1 SHUTDOWN_BOTH shut_down = Inr (0, shut_down)"
proof -
  have sock: "fid_stream connected 1 = Inr (Some (SocketObj 1))"
    by (simp add: sock_defs fixtures)
  have c: "deref (SCB connected) 1 =
      Inr (caller_scb\<lparr>refcount := 2, type := SOCKET_PEER, peer := Some 2,
                      write_pipe := Some 1, read_pipe := Some 0\<rparr>)"
    by (simp add: deref_def connected_def)
  have peer: "type (caller_scb\<lparr>refcount := 2, type := SOCKET_PEER, peer := Some 2,
                      write_pipe := Some 1, read_pipe := Some 0\<rparr>) = SOCKET_PEER"
    by simp
  have how: "SHUTDOWN_BOTH \<noteq> SHUTDOWN_OTHER" by simp
  from shutdown_idempotent[OF sock c peer how shut_down_reached] sock c shut_down_reached
  show ?thesis by simp
qed

lemma first_free_Some:
  "first_free xs k = Some i \<Longrightarrow> k \<le> i \<and> i - k < length xs \<and> xs ! (i - k) = None"
proof (induction xs k rule: first_free.induct)
  case (1 i)
  then show ?case by simp
next
  case (2 xs i)
  then show ?case by simp
next
  case (3 x xs k)
  then have "Suc k \<le> i \<and> i - Suc k < length xs \<and> xs ! (i - Suc k) = None" by simp
  then show ?case by (auto simp: nth_Cons')
qed

lemma FCB_reserve_Some:
  assumes "FCB_reserve s = Some (fid, f, s1)"
  shows "fid < length (FIDT s) \<and> f < length (FT s)
       \<and> s1 = s\<lparr>FT := (FT s)[f := Some \<lparr>streamobj = None, streamfunc = None\<rparr>],
                FIDT := (FIDT s)[fid := Some f]\<rparr>"
  using assms first_free_Some[of "FIDT s" 0 fid] first_free_Some[of "FT s" 0 f]
  by (auto simp: FCB_reserve_def split: option.splits)

lemma sys_Socket_ok:
  assumes "sys_Socket mem p s = (fid, s')" and "fid \<noteq> NOFILE"
  shows "\<exists>i f. fid = int i \<and> i < length (FIDT s) \<and> f < length (FT s)
       \<and> FIDT s' = (FIDT s)[i := Some f]
       \<and> FT s' = (FT s)[f := Some \<lparr>streamobj = Some (SocketObj (length (SCB s))),
                                     streamfunc = Some socket_fileops\<rparr>]
       \<and> SCB s' = SCB s @ [Some (mem\<lparr>port := p, refcount := 0, fcb := f, type := SOCKET_UNBOUND\<rparr>)]
       \<and> PIPE s' = PIPE s \<and> REQ s' = REQ s \<and> PORT_MAP s' = PORT_MAP s \<and> sent s' = sent s"
proof -
  from assms obtain i f s1 where r: "FCB_reserve s = Some (i, f, s1)"
    by (auto simp: sys_Socket_def split: if_splits option.splits)
  from FCB_reserve_Some[OF r] r assms show ?thesis
    by (auto simp: sys_Socket_def xmalloc_def NOFILE_def split: if_splits)
qed

lemma sys_Accept_wire_ok:
  assumes w: "sys_Accept_wire pmem1 pmem2 L r C S fid0 s = Inr (Return fid s')"
    and ne: "C \<noteq> S"
  shows "\<exists>c1 c2 cC cS pA pB. deref (SCB s) C = Inr c1 \<and> deref (SCB s) S = Inr c2
     \<and> fid = fid0 \<and> FT s' = FT s \<and> FIDT s' = FIDT s \<and> length (SCB s') = length (SCB s)
     \<and> PIPE s' = PIPE s @ [Some pA, Some pB]
     \<and> deref (SCB s') C = Inr cC \<and> deref (SCB s') S = Inr cS
     \<and> fcb cC = fcb c1 \<and> fcb cS = fcb c2
     \<and> writer pA = Some (fcb cS) \<and> reader pA = Some (fcb cC)
     \<and> writer pB = Some (fcb cC) \<and> reader pB = Some (fcb cS)
     \<and> read_pipe cC = Some (length (PIPE s)) \<and> write_pipe cC = Some (Suc (length (PIPE s)))
     \<and> read_pipe cS = Some (Suc (length (PIPE s))) \<and> write_pipe cS = Some (length (PIPE s))
     \<and> type cC = SOCKET_PEER \<and> type cS = SOCKET_PEER
     \<and> peer cC = Some S \<and> peer cS = Some C"
  using w ne
  apply (simp add: sys_Accept_wire_def bind_fault_Inr SCB_upd_Inr xmalloc_def Let_def
      kernel_signal_def deref_Inr)
  apply (elim exE conjE)
  apply (auto simp: nth_list_update split: if_splits)
  done


lemma sys_Accept_admit_ok:
  assumes a: "sys_Accept_admit mem pmem1 pmem2 L s = Inr (Return fid s')"
    and fid: "fid \<noteq> NOFILE"
  shows "accept_wired L s fid s'"
proof -
  note d = sys_Accept_admit_def SCB_upd_def
  obtain l where l: "deref (SCB s) L = Inr l"
    using a by (cases "deref (SCB s) L") (auto simp: d)
  obtain e where e: "PORT_MAP_at s (port l) = Inr e"
    using a l by (cases "PORT_MAP_at s (port l)") (auto simp: d)
  have ene: "e \<noteq> None"
    using a l e fid by (auto simp: d split: if_split_asm)
  obtain r rest where q: "queue l = r # rest"
    using a l e ene by (cases "queue l") (auto simp: d)
  obtain rq where rq: "deref (REQ s) r = Inr rq"
    using a l e ene q by (cases "deref (REQ s) r") (auto simp: d)
  obtain C where C: "req_peer rq = Some C"
    using a l e ene q rq fid by (cases "req_peer rq") (auto simp: d)
  obtain c1 where c1: "deref ((SCB s)[L := Some (l\<lparr>queue := rest\<rparr>)]) C = Inr c1"
    using a l e ene q rq C
    by (cases "deref ((SCB s)[L := Some (l\<lparr>queue := rest\<rparr>)]) C") (auto simp: d)
  have unb: "type c1 = SOCKET_UNBOUND"
    using a l e ene q rq C c1 fid by (auto simp: d split: if_split_asm)
  obtain fid0 s2 where sock:
    "sys_Socket mem (port c1) (s\<lparr>SCB := (SCB s)[L := Some (l\<lparr>queue := rest\<rparr>)]\<rparr>) = (fid0, s2)"
    by fastforce
  have fid0: "fid0 \<noteq> NOFILE"
    using a l e ene q rq C c1 unb sock fid by (auto simp: d split: if_split_asm)
  note known = l e ene q rq C c1 unb sock fid0
  obtain ob where obj:
    "(case get_fcb s2 fid0 of None \<Rightarrow> Inl NullPointer | Some S2 \<Rightarrow> fcb_stream s2 S2) = Inr ob"
    using a known
    by (cases "case get_fcb s2 fid0 of None \<Rightarrow> Inl NullPointer | Some S2 \<Rightarrow> fcb_stream s2 S2")
       (auto simp: d)
  obtain x where x: "ob = Some x"
    using a known obj fid by (cases ob) (auto simp: d)
  obtain S where S: "as_socket x = Inr S"
    using a known obj x by (cases "as_socket x") (auto simp: d)
  have w: "sys_Accept_wire pmem1 pmem2 L r C S fid0 s2 = Inr (Return fid s')"
    using a known obj x S by (simp add: d)
  let ?s1 = "s\<lparr>SCB := (SCB s)[L := Some (l\<lparr>queue := rest\<rparr>)]\<rparr>"
  from sys_Socket_ok[OF sock fid0] obtain i f where
      i: "fid0 = int i" "i < length (FIDT s)" "f < length (FT s)"
    and s2: "FIDT s2 = (FIDT s)[i := Some f]"
      "FT s2 = (FT s)[f := Some \<lparr>streamobj = Some (SocketObj (length (SCB s))),
                                     streamfunc = Some socket_fileops\<rparr>]"
      "SCB s2 = (SCB s)[L := Some (l\<lparr>queue := rest\<rparr>)] @
          [Some (mem\<lparr>port := port c1, refcount := 0, fcb := f, type := SOCKET_UNBOUND\<rparr>)]"
      "PIPE s2 = PIPE s" "REQ s2 = REQ s"
    by auto
  have g: "get_fcb s2 fid0 = Some f"
    using i s2 by (simp add: get_fcb_def MAX_FILEID_def)
  have st: "fcb_stream s2 f = Inr (Some (SocketObj (length (SCB s))))"
    using i s2 by (simp add: fcb_stream_def deref_def)
  from obj x g st S have S': "S = length (SCB s)" by auto
  from c1 have Clt: "C < length (SCB s)" by (simp add: deref_Inr)
  with S' have ne: "C \<noteq> S" by simp
  from sys_Accept_wire_ok[OF w ne] obtain c1' c2 cC cS pA pB where
      W: "deref (SCB s2) C = Inr c1'" "deref (SCB s2) S = Inr c2"
      "fid = fid0" "FT s' = FT s2" "FIDT s' = FIDT s2" "length (SCB s') = length (SCB s2)"
      "PIPE s' = PIPE s2 @ [Some pA, Some pB]"
      "deref (SCB s') C = Inr cC" "deref (SCB s') S = Inr cS"
      "fcb cC = fcb c1'" "fcb cS = fcb c2"
      "writer pA = Some (fcb cS)" "reader pA = Some (fcb cC)"
      "writer pB = Some (fcb cC)" "reader pB = Some (fcb cS)"
      "read_pipe cC = Some (length (PIPE s2))" "write_pipe cC = Some (Suc (length (PIPE s2)))"
      "read_pipe cS = Some (Suc (length (PIPE s2)))" "write_pipe cS = Some (length (PIPE s2))"
      "type cC = SOCKET_PEER" "type cS = SOCKET_PEER"
      "peer cC = Some S" "peer cS = Some C"
    by blast
  have c2: "fcb c2 = f"
    using W(2) s2(3) S' by (auto simp: deref_Inr nth_append)
  have g': "get_fcb s' fid = Some (fcb cS)"
    using g W(3,11) c2 get_fcb_cong[OF W(5), of fid0] by simp
  have st': "fid_stream s' fid = Inr (Some (SocketObj S))"
    using g' st W(4,11) c2 S' by (simp add: fid_stream_def fcb_stream_def)
  have pipes: "deref (PIPE s') (length (PIPE s)) = Inr pA"
      "deref (PIPE s') (Suc (length (PIPE s))) = Inr pB"
    using W(7) s2(4) by (simp_all add: deref_def nth_append)
  show ?thesis
    unfolding accept_wired_def
    using l q rq C W(6-23) s2(3,4) S' g' st' pipes
    by (simp add: Let_def)
qed

lemma accept_wired_cong:
  assumes "deref (SCB s0) L = Inr l0" and "deref (SCB s) L = Inr l" and "queue l0 = queue l"
    and "REQ s0 = REQ s" and "length (SCB s0) = length (SCB s)" and "PIPE s0 = PIPE s"
  shows "accept_wired L s0 fid s' = accept_wired L s fid s'"
  using assms
  by (simp add: accept_wired_def Let_def cong: list.case_cong sum.case_cong option.case_cong)

text \<open>
  C9. Accept pipe wiring. A \<open>sys_Accept\<close> that returns a descriptor, from its entry or
  from a wake-up, has admitted the request at the head of the listener's queue, made by
  the connecting socket \<open>C\<close>. It has created one socket \<open>S\<close> and two pipes \<open>A\<close> and
  \<open>B\<close>, with \<open>A\<close> written by the file control block of \<open>S\<close> and read by that of \<open>C\<close>,
  and \<open>B\<close> the other way round. \<open>C\<close> reads \<open>A\<close> and writes \<open>B\<close>, \<open>S\<close> reads \<open>B\<close> and
  writes \<open>A\<close>; both are peers and each is the peer of the other. The descriptor returned
  is bound to \<open>S\<close>.
\<close>

theorem accept_pipe_wiring:
  "(sys_Accept_resume mem pmem1 pmem2 L s = Inr (Return fid s') \<and> fid \<noteq> NOFILE
      \<longrightarrow> accept_wired L s fid s')
   \<and> (sys_Accept mem pmem1 pmem2 lsock s = Inr (Return fid s') \<and> fid \<noteq> NOFILE
      \<longrightarrow> (\<exists>L. fid_stream s lsock = Inr (Some (SocketObj L)) \<and> accept_wired L s fid s'))"
proof -
  have resume: "accept_wired L s fid s'"
    if r: "sys_Accept_resume mem pmem1 pmem2 L s = Inr (Return fid s')" and f: "fid \<noteq> NOFILE"
    for L s
  proof -
    obtain l where l: "deref (SCB s) L = Inr l"
      using r by (cases "deref (SCB s) L") (auto simp: sys_Accept_resume_def)
    have "sys_Accept_admit mem pmem1 pmem2 L s = Inr (Return fid s')"
      using r l f
      by (cases "PORT_MAP_at s (port l)")
         (auto simp: sys_Accept_resume_def split: if_split_asm)
    then show ?thesis by (rule sys_Accept_admit_ok[OF _ f])
  qed
  have entry: "\<exists>L. fid_stream s lsock = Inr (Some (SocketObj L)) \<and> accept_wired L s fid s'"
    if e: "sys_Accept mem pmem1 pmem2 lsock s = Inr (Return fid s')" and f: "fid \<noteq> NOFILE"
  proof -
    obtain ob where ob: "fid_stream s lsock = Inr ob"
      using e by (cases "fid_stream s lsock") (auto simp: sys_Accept_def)
    obtain x where x: "ob = Some x"
      using e ob f by (cases ob) (auto simp: sys_Accept_def)
    obtain L where L: "as_socket x = Inr L"
      using e ob x by (cases "as_socket x") (auto simp: sys_Accept_def)
    have xL: "x = SocketObj L"
      using L by (cases x) auto
    obtain l where l: "deref (SCB s) L = Inr l"
      using e ob x L by (cases "deref (SCB s) L") (auto simp: sys_Accept_def)
    let ?s0 = "s\<lparr>SCB := (SCB s)[L := Some (l\<lparr>refcount := refcount l + 1\<rparr>)]\<rparr>"
    have r: "sys_Accept_resume mem pmem1 pmem2 L ?s0 = Inr (Return fid s')"
      using e ob x L l f by (auto simp: sys_Accept_def SCB_upd_def split: if_split_asm)
    have l0: "deref (SCB ?s0) L = Inr (l\<lparr>refcount := refcount l + 1\<rparr>)"
      using l by (simp add: deref_Inr deref_same)
    have "accept_wired L ?s0 fid s' = accept_wired L s fid s'"
      by (rule accept_wired_cong[OF l0 l]) simp_all
    with resume[OF r f] ob x xL show ?thesis by auto
  qed
  from resume entry show ?thesis by blast
qed

theorem accept_pipe_wiring_witness:
  "sys_Accept scb_mem pipe_mem pipe_mem 0 twice_pending = Inr (Return 2 connected)
   \<and> 2 \<noteq> NOFILE
   \<and> fid_stream twice_pending 0 = Inr (Some (SocketObj 0))
   \<and> accept_wired 0 twice_pending 2 connected"
proof -
  have f: "2 \<noteq> NOFILE" by (simp add: NOFILE_def)
  have l: "fid_stream twice_pending 0 = Inr (Some (SocketObj 0))"
    by (simp add: sock_defs fixtures)
  from accept_pipe_wiring[of scb_mem pipe_mem pipe_mem 0 twice_pending 2 connected 0]
    connected_reached f l
  show ?thesis by auto
qed

text \<open>
  C1, where the code falls short of it. A \<open>sys_Connect\<close> whose wait times out returns -1
  and leaves the count of its socket one above what it found; a \<open>sys_Accept\<close> that turns
  a request down returns \<open>NOFILE\<close> and leaves the count of the listener one above what
  it found.
\<close>

theorem refcount_left_raised:
  "sys_Connect 1 2 listening = Inr (Wait (Connected_cv 0) pending)
   \<and> sys_Connect_resume 1 0 False pending = Inr (Return (- 1) pending)
   \<and> map_sum id refcount (deref (SCB listening) 1) = Inr 0
   \<and> map_sum id refcount (deref (SCB pending) 1) = Inr 1
   \<and> sys_Accept scb_mem pipe_mem pipe_mem 0 connected = Inr (Return NOFILE refused)
   \<and> map_sum id refcount (deref (SCB connected) 0) = Inr 0
   \<and> map_sum id refcount (deref (SCB refused) 0) = Inr 1"
  using pending_reached timed_out refused_reached
  by (simp add: deref_def fixtures)

text \<open>
  C2, where the code falls short of it. A socket fresh from \<open>sys_Socket\<close> has the count
  0; \<open>socket_close\<close> on it returns 0 having decremented the count below 0, to
  \<open>2^32 - 1\<close>, and the block is still allocated.
\<close>

theorem close_leaves_block:
  "sys_Socket scb_mem 2 boot = (0, born)
   \<and> map_sum id refcount (deref (SCB born) 0) = Inr 0
   \<and> socket_close (Some 0) born = Inr (0, closed)
   \<and> map_sum id refcount (deref (SCB closed) 0) = Inr 4294967295"
  using born_reached closed_reached
  by (simp add: deref_def fixtures)

text \<open>
  C3, where the code falls short of it. \<open>sys_Socket\<close> accepts the port \<open>MAX_PORT\<close>, and
  \<open>sys_Listen\<close> on that socket reads \<open>PORT_MAP[MAX_PORT]\<close>, one past the last element.
\<close>

theorem port_map_overrun:
  "MAX_PORT boot = 4
   \<and> sys_Socket scb_mem 4 boot =
       (0, born\<lparr>SCB := [Some (scb_mem\<lparr>refcount := 0, fcb := 0, type := SOCKET_UNBOUND, port := 4\<rparr>)]\<rparr>)
   \<and> sys_Listen 0
         (born\<lparr>SCB := [Some (scb_mem\<lparr>refcount := 0, fcb := 0, type := SOCKET_UNBOUND, port := 4\<rparr>)]\<rparr>)
       = Inl OutOfBounds"
  by (simp add: sock_defs fixtures)

section \<open>Properties of the thread calls\<close>

lemma bind_proc_Inr: "(bind_proc m f = Inr y) = (\<exists>x. m = Inr x \<and> f x = Inr y)"
  by (cases m) auto

lemma PCB_at_Inr: "(PCB_at s p = Inr pcb) = (p < length (PT s) \<and> PT s ! p = pcb)"
  by (auto simp: PCB_at_def)

lemma PCB_upd_Inr:
  "(PCB_upd p f s = Inr s') = (p < length (PT s) \<and> s' = s\<lparr>PT := (PT s)[p := f (PT s ! p)]\<rparr>)"
  by (auto simp: PCB_upd_def)

lemma PTCB_at_Inr: "(PTCB_at s a = Inr p) = (a < length (PTCBS s) \<and> PTCBS s ! a = Some p)"
  by (auto simp: PTCB_at_def deref_def split: option.splits)

lemma PTCB_upd_Inr:
  "(PTCB_upd a f s = Inr s') =
     (\<exists>p. PTCB_at s a = Inr p \<and> s' = s\<lparr>PTCBS := (PTCBS s)[a := Some (f p)]\<rparr>)"
  by (auto simp: PTCB_upd_def bind_proc_Inr)

text \<open>What the reparenting loop changes and what it leaves alone.\<close>

lemma reparent_effect:
  "reparent (Some i) P cs s = Inr s' \<Longrightarrow> i \<noteq> P \<Longrightarrow>
     length (PT s') = length (PT s) \<and> PTCBS s' = PTCBS s \<and> broadcasts s' = broadcasts s
     \<and> decrefs s' = decrefs s
     \<and> (\<forall>q. exited_list (PT s' ! q) = exited_list (PT s ! q))
     \<and> (\<forall>q. thread_count (PT s' ! q) = thread_count (PT s ! q))
     \<and> (\<forall>q. q \<notin> set cs \<longrightarrow> parent (PT s' ! q) = parent (PT s ! q))
     \<and> (\<forall>q. parent (PT s ! q) = Some i \<longrightarrow> parent (PT s' ! q) = Some i)
     \<and> (\<forall>q \<in> set cs. q < length (PT s) \<and> parent (PT s' ! q) = Some i)
     \<and> set cs \<union> set (children_list (PT s ! i)) \<subseteq> set (children_list (PT s' ! i))"
proof (induction cs arbitrary: s)
  case Nil
  then show ?case by simp
next
  case (Cons c cs)
  let ?s1 = "s\<lparr>PT := (PT s)[P := (PT s ! P)\<lparr>children_list := cs\<rparr>]\<rparr>"
  let ?s2 = "?s1\<lparr>PT := (PT ?s1)[c := (PT ?s1 ! c)\<lparr>parent := Some i\<rparr>]\<rparr>"
  let ?s3 = "?s2\<lparr>PT := (PT ?s2)[i := (PT ?s2 ! i)\<lparr>children_list := c # children_list (PT ?s2 ! i)\<rparr>]\<rparr>"
  from Cons.prems(1) have P: "P < length (PT s)" and c: "c < length (PT s)" and i: "i < length (PT s)"
    and rest: "reparent (Some i) P cs ?s3 = Inr s'"
    by (auto simp: bind_proc_Inr PCB_upd_Inr)
  note IH = Cons.IH[OF rest Cons.prems(2)]
  have pc: "parent (PT ?s3 ! c) = Some i"
    using P c i Cons.prems(2) by (simp add: nth_list_update)
  have ch: "c \<in> set (children_list (PT ?s3 ! i))"
      "set (children_list (PT s ! i)) \<subseteq> set (children_list (PT ?s3 ! i))"
    using P c i Cons.prems(2) by (auto simp: nth_list_update)
  have ex: "\<And>q. exited_list (PT ?s3 ! q) = exited_list (PT s ! q)"
      "\<And>q. thread_count (PT ?s3 ! q) = thread_count (PT s ! q)"
    using P c i by (auto simp: nth_list_update)
  have par: "\<And>q. q \<noteq> c \<Longrightarrow> parent (PT ?s3 ! q) = parent (PT s ! q)"
    using P c i by (auto simp: nth_list_update)
  have keep: "\<And>q. parent (PT s ! q) = Some i \<Longrightarrow> parent (PT ?s3 ! q) = Some i"
    using P c i by (auto simp: nth_list_update)
  have len: "length (PT ?s3) = length (PT s)" by simp
  have fr: "PTCBS ?s3 = PTCBS s" "broadcasts ?s3 = broadcasts s" "decrefs ?s3 = decrefs s"
    by simp_all
  from IH have A: "length (PT s') = length (PT ?s3)" "PTCBS s' = PTCBS ?s3"
      "broadcasts s' = broadcasts ?s3" "decrefs s' = decrefs ?s3"
    and B: "\<And>q. exited_list (PT s' ! q) = exited_list (PT ?s3 ! q)"
      "\<And>q. thread_count (PT s' ! q) = thread_count (PT ?s3 ! q)"
    and C: "\<And>q. q \<notin> set cs \<Longrightarrow> parent (PT s' ! q) = parent (PT ?s3 ! q)"
    and D: "\<And>q. parent (PT ?s3 ! q) = Some i \<Longrightarrow> parent (PT s' ! q) = Some i"
    and E: "\<And>q. q \<in> set cs \<Longrightarrow> q < length (PT ?s3) \<and> parent (PT s' ! q) = Some i"
    and F: "set cs \<union> set (children_list (PT ?s3 ! i)) \<subseteq> set (children_list (PT s' ! i))"
    by blast+
  show ?case
  proof (intro conjI allI impI ballI)
    show "length (PT s') = length (PT s)" using A(1) len by simp
    show "PTCBS s' = PTCBS s" using A(2) fr by simp
    show "broadcasts s' = broadcasts s" using A(3) fr by simp
    show "decrefs s' = decrefs s" using A(4) fr by simp
    show "exited_list (PT s' ! q) = exited_list (PT s ! q)" for q using B(1) ex(1) by simp
    show "thread_count (PT s' ! q) = thread_count (PT s ! q)" for q using B(2) ex(2) by simp
    show "parent (PT s' ! q) = parent (PT s ! q)" if "q \<notin> set (c # cs)" for q
      using that C[of q] par[of q] by simp
    show "parent (PT s' ! q) = Some i" if "parent (PT s ! q) = Some i" for q
      using D[OF keep[OF that]] .
    show "q < length (PT s)" if "q \<in> set (c # cs)" for q
      using that c E[of q] len by auto
    show "parent (PT s' ! q) = Some i" if "q \<in> set (c # cs)" for q
      using that E[of q] D[OF pc] by auto
    show "set (c # cs) \<union> set (children_list (PT s ! i)) \<subseteq> set (children_list (PT s' ! i))"
      using F ch by auto
  qed
qed


lemma reparent_no_init: "reparent None P (c # cs) s \<noteq> Inr s'"
  by (auto simp: bind_proc_Inr)

lemma fold_free_length: "length (fold (\<lambda>a h. free h a) xs h) = length h"
  by (induction xs arbitrary: h) (simp_all add: free_def)

lemma free_nth: "free h x ! b = None \<or> free h x ! b = h ! b"
  by (cases "x < length h"; cases "x = b") (auto simp: free_def list_update_beyond)

lemma fold_free_nth:
  "fold (\<lambda>a h. free h a) xs h ! b = None \<or> fold (\<lambda>a h. free h a) xs h ! b = h ! b"
proof (induction xs arbitrary: h)
  case Nil
  then show ?case by simp
next
  case (Cons x xs)
  from Cons.IH[of "free h x"] free_nth[of h x b] show ?case
    by auto
qed

lemma process_cleanup_effect:
  assumes "process_cleanup P s = Inr s'"
  shows "broadcasts s' = broadcasts s \<and> length (PT s') = length (PT s)
     \<and> (\<forall>q. parent (PT s' ! q) = parent (PT s ! q))
     \<and> (\<forall>q. children_list (PT s' ! q) = children_list (PT s ! q))
     \<and> length (PTCBS s') = length (PTCBS s)
     \<and> (\<forall>a. PTCBS s' ! a = None \<or> PTCBS s' ! a = PTCBS s ! a)"
proof -
  from assms have P: "P < length (PT s)"
    and s': "s' = s\<lparr>PT := (PT s)[P := (PT s ! P)\<lparr>args := None,
                      p_FIDT := map (\<lambda>e. None) (p_FIDT (PT s ! P)),
                      ptcb_list := [], main_thread := None, pstate := ZOMBIE\<rparr>],
                PTCBS := fold (\<lambda>a h. free h a) (ptcb_list (PT s ! P)) (PTCBS s),
                decrefs := decrefs s @ List.map_filter id (p_FIDT (PT s ! P))\<rparr>"
    by (auto simp: process_cleanup_def bind_proc_Inr PCB_at_Inr PCB_upd_Inr split: if_split_asm)
  have "\<forall>a. PTCBS s' ! a = None \<or> PTCBS s' ! a = PTCBS s ! a"
    using fold_free_nth[of "ptcb_list (PT s ! P)" "PTCBS s"] by (simp add: s')
  moreover have "\<forall>q. parent (PT s' ! q) = parent (PT s ! q)"
      "\<forall>q. children_list (PT s' ! q) = children_list (PT s ! q)"
    using P by (simp_all add: s' nth_list_update)
  ultimately show ?thesis
    by (simp add: s' fold_free_length)
qed

lemma orphan_handover_effect:
  assumes h: "orphan_handover P s = Inr s'" and ne: "P \<noteq> 1"
    and self: "P \<notin> set (children_list (PT s ! P))"
  shows "\<exists>pp. parent (PT s ! P) = Some pp
     \<and> broadcasts s' = broadcasts s
          @ (if exited_list (PT s ! P) = [] then [] else [child_exit 1]) @ [child_exit pp]
     \<and> PTCBS s' = PTCBS s \<and> length (PT s') = length (PT s) \<and> 1 < length (PT s)
     \<and> (\<forall>q \<in> set (children_list (PT s ! P)).
           q < length (PT s) \<and> parent (PT s' ! q) = Some 1 \<and> q \<in> set (children_list (PT s' ! 1)))"
proof -
  let ?cs = "children_list (PT s ! P)"
  note d = orphan_handover_def
  obtain initpcb where init: "get_pcb s 1 = Inr initpcb"
    using h by (cases "get_pcb s 1") (auto simp: d)
  have P: "PCB_at s P = Inr (PT s ! P)"
    using h init by (cases "PCB_at s P") (auto simp: d PCB_at_Inr)
  obtain s1 where rp: "reparent initpcb P ?cs s = Inr s1"
    using h init P by (cases "reparent initpcb P ?cs s") (auto simp: d)
  have P1: "PCB_at s1 P = Inr (PT s1 ! P)"
    using h init P rp by (cases "PCB_at s1 P") (auto simp: d PCB_at_Inr)
  let ?ex = "(if exited_list (PT s1 ! P) \<noteq> [] then
          (case initpcb of
             None \<Rightarrow> Inl (Memory NullPointer)
           | Some i \<Rightarrow>
               bind_proc (PCB_upd i (\<lambda>p. p\<lparr>exited_list := exited_list p @ exited_list (PT s1 ! P)\<rparr>) s1) (\<lambda>s2.
               bind_proc (PCB_upd P (\<lambda>p. p\<lparr>exited_list := []\<rparr>) s2) (\<lambda>s3.
                 Inr (proc_broadcast (child_exit i) s3))))
        else Inr s1)"
  obtain s4 where ex: "?ex = Inr s4"
    using h init P rp P1 by (cases ?ex) (auto simp: d)
  obtain pp where pp: "parent (PT s1 ! P) = Some pp"
    using h init P rp P1 ex by (cases "parent (PT s1 ! P)") (auto simp: d)
  obtain s5 where last: "PCB_upd pp (\<lambda>p. p\<lparr>exited_list := P # exited_list p\<rparr>) s4 = Inr s5"
    and s': "s' = proc_broadcast (child_exit pp) s5"
    using h init P rp P1 ex pp by (auto simp: d bind_proc_Inr)
  from init have one: "1 < length (PT s)" and initv: "initpcb = None \<or> initpcb = Some 1"
    by (auto simp: get_pcb_def bind_proc_Inr PCB_at_Inr split: if_split_asm)
  have R: "length (PT s1) = length (PT s) \<and> PTCBS s1 = PTCBS s \<and> broadcasts s1 = broadcasts s
     \<and> exited_list (PT s1 ! P) = exited_list (PT s ! P)
     \<and> parent (PT s1 ! P) = parent (PT s ! P)
     \<and> (\<forall>q \<in> set ?cs. q < length (PT s) \<and> parent (PT s1 ! q) = Some 1
            \<and> q \<in> set (children_list (PT s1 ! 1)))"
  proof (cases "?cs")
    case Nil
    with rp show ?thesis by simp
  next
    case (Cons c cs)
    with rp initv reparent_no_init have i1: "initpcb = Some 1" by metis
    from reparent_effect[OF rp[unfolded i1]] ne self show ?thesis by auto
  qed
  have S: "length (PT s4) = length (PT s1) \<and> PTCBS s4 = PTCBS s1
     \<and> broadcasts s4 = broadcasts s1 @ (if exited_list (PT s1 ! P) = [] then [] else [child_exit 1])
     \<and> (\<forall>q. parent (PT s4 ! q) = parent (PT s1 ! q))
     \<and> (\<forall>q. children_list (PT s4 ! q) = children_list (PT s1 ! q))"
  proof (cases "exited_list (PT s1 ! P) = []")
    case True
    with ex show ?thesis by simp
  next
    case False
    with ex initv have i1: "initpcb = Some 1" by (auto split: option.split_asm)
    with ex False show ?thesis
      by (auto simp: bind_proc_Inr PCB_upd_Inr proc_broadcast_def nth_list_update)
  qed
  have T: "length (PT s') = length (PT s4) \<and> PTCBS s' = PTCBS s4
     \<and> broadcasts s' = broadcasts s4 @ [child_exit pp]
     \<and> (\<forall>q. parent (PT s' ! q) = parent (PT s4 ! q))
     \<and> (\<forall>q. children_list (PT s' ! q) = children_list (PT s4 ! q))"
    using last s' by (auto simp: PCB_upd_Inr proc_broadcast_def nth_list_update)
  from R S T pp one show ?thesis by auto
qed


lemma reparent_PTCBS: "reparent ip P cs s = Inr s' \<Longrightarrow> PTCBS s' = PTCBS s"
proof (induction cs arbitrary: s)
  case Nil
  then show ?case by simp
next
  case (Cons c cs)
  then show ?case
    by (cases ip) (auto simp: bind_proc_Inr PCB_upd_Inr)
qed

lemma orphan_handover_PTCBS:
  assumes h: "orphan_handover P s = Inr s'"
  shows "PTCBS s' = PTCBS s"
proof -
  note d = orphan_handover_def
  obtain initpcb where init: "get_pcb s 1 = Inr initpcb"
    using h by (cases "get_pcb s 1") (auto simp: d)
  have P: "PCB_at s P = Inr (PT s ! P)"
    using h init by (cases "PCB_at s P") (auto simp: d PCB_at_Inr)
  obtain s1 where rp: "reparent initpcb P (children_list (PT s ! P)) s = Inr s1"
    using h init P by (cases "reparent initpcb P (children_list (PT s ! P)) s") (auto simp: d)
  have P1: "PCB_at s1 P = Inr (PT s1 ! P)"
    using h init P rp by (cases "PCB_at s1 P") (auto simp: d PCB_at_Inr)
  let ?ex = "(if exited_list (PT s1 ! P) \<noteq> [] then
          (case initpcb of
             None \<Rightarrow> Inl (Memory NullPointer)
           | Some i \<Rightarrow>
               bind_proc (PCB_upd i (\<lambda>p. p\<lparr>exited_list := exited_list p @ exited_list (PT s1 ! P)\<rparr>) s1) (\<lambda>s2.
               bind_proc (PCB_upd P (\<lambda>p. p\<lparr>exited_list := []\<rparr>) s2) (\<lambda>s3.
                 Inr (proc_broadcast (child_exit i) s3))))
        else Inr s1)"
  obtain s4 where ex: "?ex = Inr s4"
    using h init P rp P1 by (cases ?ex) (auto simp: d)
  obtain pp where pp: "parent (PT s1 ! P) = Some pp"
    using h init P rp P1 ex by (cases "parent (PT s1 ! P)") (auto simp: d)
  obtain s5 where last: "PCB_upd pp (\<lambda>p. p\<lparr>exited_list := P # exited_list p\<rparr>) s4 = Inr s5"
    and s': "s' = proc_broadcast (child_exit pp) s5"
    using h init P rp P1 ex pp by (auto simp: d bind_proc_Inr)
  have "PTCBS s4 = PTCBS s1"
    using ex by (cases initpcb)
      (auto simp: bind_proc_Inr PCB_upd_Inr proc_broadcast_def split: if_split_asm)
  with last s' reparent_PTCBS[OF rp] show ?thesis
    by (auto simp: PCB_upd_Inr proc_broadcast_def)
qed

text \<open>What an exit leaves in the thread block of the exiting thread, where the block survives.\<close>

lemma sys_ThreadExit_PTCB:
  assumes ex: "sys_ThreadExit P T v s = Inr s1" and p1: "PTCB_at s1 T = Inr p1"
  shows "exited p1 = 1 \<and> ptcb_exitval p1 = v"
proof -
  from ex obtain p0 s2 where p0: "PTCB_at s T = Inr p0"
    and s2: "PCB_upd P (\<lambda>p. p\<lparr>thread_count := thread_count p - 1\<rparr>)
        (proc_broadcast (exit_cv T)
           (s\<lparr>PTCBS := (PTCBS s)[T := Some (p0\<lparr>ptcb_exitval := v, exited := 1\<rparr>)]\<rparr>)) = Inr s2"
    and rest: "(if thread_count (PT s2 ! P) = 0 then
         bind_proc (if P \<noteq> 1 then orphan_handover P s2 else Inr s2) (process_cleanup P)
       else Inr s2) = Inr s1"
    by (auto simp: sys_ThreadExit_def bind_proc_Inr PTCB_upd_Inr PCB_at_Inr)
  have T2: "PTCBS s2 = (PTCBS s)[T := Some (p0\<lparr>ptcb_exitval := v, exited := 1\<rparr>)]"
    using s2 by (auto simp: PCB_upd_Inr proc_broadcast_def)
  have "PTCBS s1 ! T = None \<or> PTCBS s1 ! T = PTCBS s2 ! T"
  proof (cases "thread_count (PT s2 ! P) = 0")
    case False
    with rest show ?thesis by simp
  next
    case True
    with rest obtain s3 where h: "(if P \<noteq> 1 then orphan_handover P s2 else Inr s2) = Inr s3"
      and c: "process_cleanup P s3 = Inr s1"
      by (auto simp: bind_proc_Inr)
    have "PTCBS s3 = PTCBS s2"
      using h orphan_handover_PTCBS[of P s2 s3] by (auto split: if_split_asm)
    with process_cleanup_effect[OF c] show ?thesis by auto
  qed
  with p1 p0 T2 show ?thesis
    by (auto simp: PTCB_at_Inr)
qed


text \<open>An exited thread cannot be detached any more: the call fails and changes nothing.\<close>

lemma sys_ThreadDetach_exited:
  assumes "PCB_at s Q = Inr pcb" and "PTCB_at s T = Inr p" and "exited p = 1"
  shows "sys_ThreadDetach Q T s = Inr (- 1, s)"
  using assms by (simp add: sys_ThreadDetach_def)

text \<open>A join that finds its target exited and not detached, from the head of the wait loop.\<close>

lemma sys_ThreadJoin_resume_exited:
  assumes p: "PTCB_at s T = Inr p" and e: "exited p = 1" and nd: "detached p \<noteq> 1"
  shows "sys_ThreadJoin_resume T out s =
     Inr (JoinReturn 0 (if out then Some (ptcb_exitval p) else None)
       (if ptcb_refcount p = 1
        then (unlink_ptcb T (s\<lparr>PTCBS := (PTCBS s)[T := Some (p\<lparr>ptcb_refcount := 0\<rparr>)]\<rparr>))
               \<lparr>PTCBS := free ((PTCBS s)[T := Some (p\<lparr>ptcb_refcount := 0\<rparr>)]) T\<rparr>
        else s\<lparr>PTCBS := (PTCBS s)[T := Some (p\<lparr>ptcb_refcount := ptcb_refcount p - 1\<rparr>)]\<rparr>))"
proof -
  from p have T: "T < length (PTCBS s)" and v: "PTCBS s ! T = Some p"
    by (simp_all add: PTCB_at_Inr)
  have after: "PTCB_at (s\<lparr>PTCBS := (PTCBS s)[T := Some q]\<rparr>) T = Inr q" for q
    using T by (simp add: PTCB_at_Inr)
  show ?thesis
    using p e nd after
    by (simp add: sys_ThreadJoin_resume_def PTCB_upd_def unlink_ptcb_def Let_def)
qed

lemma released_block:
  assumes "T < length h"
  shows "PTCB_at ((unlink_ptcb T s)\<lparr>PTCBS := free h T\<rparr>) T = Inl (Memory Dangling)"
    and "\<forall>pcb \<in> set (PT ((unlink_ptcb T s)\<lparr>PTCBS := free h T\<rparr>)). T \<notin> set (ptcb_list pcb)"
  using assms by (auto simp: PTCB_at_def deref_def free_def unlink_ptcb_def)

text \<open>
  C7. Join delivers the exit value. Let thread \<open>T\<close> call \<open>sys_ThreadExit(v)\<close> and its
  block outlive the call (\<open>T\<close> was not the last thread of its process). Take any state
  in which the block still holds the exit value and the exited flag the exit left, and is
  not detached. A joiner woken there returns 0 and stores \<open>v\<close> through the pointer when
  it is not \<open>NULL\<close>; so does a join called there on a target that is on the caller's
  list and is not the caller. When the joiner's decrement brings the count to 0, the
  block is off every list and freed.
\<close>

theorem join_delivers_exit:
  assumes ex: "sys_ThreadExit P T v s = Inr s1"
    and p1: "PTCB_at s1 T = Inr p1"
    and p2: "PTCB_at s2 T = Inr p2"
    and kept: "ptcb_exitval p2 = ptcb_exitval p1" "exited p2 = exited p1"
    and nd: "detached p2 \<noteq> 1"
  shows "(\<exists>s3. sys_ThreadJoin_resume T out s2 =
                 Inr (JoinReturn 0 (if out then Some v else None) s3)
            \<and> (ptcb_refcount p2 = 1 \<longrightarrow>
                 PTCB_at s3 T = Inl (Memory Dangling)
                 \<and> (\<forall>pcb \<in> set (PT s3). T \<notin> set (ptcb_list pcb))))
       \<and> (PCB_at s2 Q = Inr pcb \<and> T \<in> set (ptcb_list pcb) \<and> T \<noteq> cur \<longrightarrow>
           (\<exists>s3. sys_ThreadJoin Q cur T out s2 =
                    Inr (JoinReturn 0 (if out then Some v else None) s3)
              \<and> (ptcb_refcount p2 = 0 \<longrightarrow>
                    PTCB_at s3 T = Inl (Memory Dangling)
                    \<and> (\<forall>pcb \<in> set (PT s3). T \<notin> set (ptcb_list pcb)))))"
proof -
  from sys_ThreadExit_PTCB[OF ex p1] kept
  have e: "exited p2 = 1" and val: "ptcb_exitval p2 = v" by simp_all
  from p2 have T: "T < length (PTCBS s2)" by (simp add: PTCB_at_Inr)
  have woken: "\<exists>s3. sys_ThreadJoin_resume T out s2 =
                 Inr (JoinReturn 0 (if out then Some v else None) s3)
            \<and> (ptcb_refcount p2 = 1 \<longrightarrow>
                 PTCB_at s3 T = Inl (Memory Dangling)
                 \<and> (\<forall>pcb \<in> set (PT s3). T \<notin> set (ptcb_list pcb)))"
    using sys_ThreadJoin_resume_exited[OF p2 e nd, of out] val
      released_block[of T "(PTCBS s2)[T := Some (p2\<lparr>ptcb_refcount := 0\<rparr>)]"
        "s2\<lparr>PTCBS := (PTCBS s2)[T := Some (p2\<lparr>ptcb_refcount := 0\<rparr>)]\<rparr>"] T
    by auto
  have called: "\<exists>s3. sys_ThreadJoin Q cur T out s2 =
                    Inr (JoinReturn 0 (if out then Some v else None) s3)
              \<and> (ptcb_refcount p2 = 0 \<longrightarrow>
                    PTCB_at s3 T = Inl (Memory Dangling)
                    \<and> (\<forall>pcb \<in> set (PT s3). T \<notin> set (ptcb_list pcb)))"
    if q: "PCB_at s2 Q = Inr pcb" and on: "T \<in> set (ptcb_list pcb)" and other: "T \<noteq> cur"
  proof -
    let ?p = "p2\<lparr>ptcb_refcount := ptcb_refcount p2 + 1\<rparr>"
    let ?s = "s2\<lparr>PTCBS := (PTCBS s2)[T := Some ?p]\<rparr>"
    have p: "PTCB_at ?s T = Inr ?p" using T by (simp add: PTCB_at_Inr)
    have e': "exited ?p = 1" and nd': "detached ?p \<noteq> 1" using e nd by simp_all
    have entry: "sys_ThreadJoin Q cur T out s2 = sys_ThreadJoin_resume T out ?s"
      using q on other p2 nd by (simp add: sys_ThreadJoin_def PTCB_upd_def)
    have T': "T < length ((PTCBS ?s)[T := Some (?p\<lparr>ptcb_refcount := 0\<rparr>)])" using T by simp
    show ?thesis
      using sys_ThreadJoin_resume_exited[OF p e' nd', of out] val entry
        released_block[OF T', of "?s\<lparr>PTCBS := (PTCBS ?s)[T := Some (?p\<lparr>ptcb_refcount := 0\<rparr>)]\<rparr>"]
      by auto
  qed
  from woken called show ?thesis by blast
qed

text \<open>
  C8, as the code has it. Let the last thread of a process \<open>P\<close> other than the initial
  one exit. Then every child of \<open>P\<close> has the initial process for parent and is on its
  children list. The broadcasts of the call are, in this order: the exit condition
  variable of the thread; \<open>child_exit\<close> of the initial process, when \<open>P\<close> had exited
  children to hand over; and \<open>child_exit\<close> of the parent of \<open>P\<close>. So \<open>child_exit\<close> of
  the initial process is broadcast when \<open>P\<close> had exited children or is itself a child of
  the initial process, and not otherwise.
\<close>

theorem reparenting_on_exit:
  assumes ne: "P \<noteq> 1" and pcb: "PCB_at s P = Inr pcb" and last: "thread_count pcb = 1"
    and self: "P \<notin> set (children_list pcb)"
    and ex: "sys_ThreadExit P cur v s = Inr s'"
  shows "\<exists>init pp. PCB_at s' 1 = Inr init \<and> parent pcb = Some pp
     \<and> (\<forall>c \<in> set (children_list pcb).
           map_sum id parent (PCB_at s' c) = Inr (Some 1) \<and> c \<in> set (children_list init))
     \<and> broadcasts s' = broadcasts s @ [exit_cv cur]
          @ (if exited_list pcb = [] then [] else [child_exit 1]) @ [child_exit pp]"
proof -
  from pcb have P: "P < length (PT s)" and pv: "PT s ! P = pcb" by (simp_all add: PCB_at_Inr)
  from ex obtain p0 where p0: "PTCB_at s cur = Inr p0"
    by (auto simp: sys_ThreadExit_def bind_proc_Inr PTCB_upd_Inr)
  let ?sa = "proc_broadcast (exit_cv cur)
     (s\<lparr>PTCBS := (PTCBS s)[cur := Some (p0\<lparr>ptcb_exitval := v, exited := 1\<rparr>)]\<rparr>)"
  let ?s2 = "?sa\<lparr>PT := (PT ?sa)[P := (PT ?sa ! P)\<lparr>thread_count := thread_count (PT ?sa ! P) - 1\<rparr>]\<rparr>"
  have two: "PT ?s2 ! P = pcb\<lparr>thread_count := 0\<rparr>"
    using P pv last by (simp add: proc_broadcast_def)
  have run: "sys_ThreadExit P cur v s = bind_proc (orphan_handover P ?s2) (process_cleanup P)"
    using p0 P pv last ne
    by (simp add: sys_ThreadExit_def PTCB_upd_def PCB_upd_def PCB_at_def proc_broadcast_def)
  from ex run obtain s3 where h: "orphan_handover P ?s2 = Inr s3"
    and c: "process_cleanup P s3 = Inr s'"
    by (auto simp: bind_proc_Inr)
  have self2: "P \<notin> set (children_list (PT ?s2 ! P))" using two self by simp
  from orphan_handover_effect[OF h ne self2] two obtain pp where
      pp: "parent pcb = Some pp"
    and b3: "broadcasts s3 = broadcasts ?s2
          @ (if exited_list pcb = [] then [] else [child_exit 1]) @ [child_exit pp]"
    and len3: "length (PT s3) = length (PT ?s2)" "1 < length (PT ?s2)"
    and kids: "\<forall>q \<in> set (children_list pcb).
           q < length (PT ?s2) \<and> parent (PT s3 ! q) = Some 1 \<and> q \<in> set (children_list (PT s3 ! 1))"
    by auto
  note C = process_cleanup_effect[OF c]
  have one: "PCB_at s' 1 = Inr (PT s' ! 1)"
    using C len3 by (simp add: PCB_at_Inr)
  have "\<forall>c \<in> set (children_list pcb).
           map_sum id parent (PCB_at s' c) = Inr (Some 1) \<and> c \<in> set (children_list (PT s' ! 1))"
    using kids C len3 by (auto simp: PCB_at_def)
  moreover have "broadcasts s' = broadcasts s @ [exit_cv cur]
          @ (if exited_list pcb = [] then [] else [child_exit 1]) @ [child_exit pp]"
    using b3 C by (simp add: proc_broadcast_def)
  ultimately show ?thesis using one pp by blast
qed

lemmas proc_defs = sys_ThreadExit_def orphan_handover_def process_cleanup_def get_pcb_def
  PCB_at_def PCB_upd_def PTCB_at_def PTCB_upd_def proc_broadcast_def unlink_ptcb_def
  sys_ThreadJoin_def sys_ThreadJoin_resume_def deref_def free_def List.map_filter_def

lemmas proc_fixtures = family_def blank_pcb_def blank_ptcb_def joining_def departed_def reaped_def

lemma joining_reached: "sys_ThreadJoin 2 3 2 True family = Inr (JoinWait (exit_cv 2) joining)"
  by (simp add: proc_defs proc_fixtures)

lemma departed_reached: "sys_ThreadExit 2 2 7 joining = Inr departed"
  by (simp add: proc_defs proc_fixtures)

lemma reaped_reached: "sys_ThreadJoin_resume 2 True departed = Inr (JoinReturn 0 (Some 7) reaped)"
  by (simp add: proc_defs proc_fixtures)

theorem join_delivers_exit_witness:
  "sys_ThreadJoin 2 3 2 True family = Inr (JoinWait (exit_cv 2) joining)
   \<and> sys_ThreadExit 2 2 7 joining = Inr departed
   \<and> map_sum id detached (PTCB_at departed 2) = Inr 0
   \<and> map_sum id ptcb_refcount (PTCB_at departed 2) = Inr 1
   \<and> sys_ThreadJoin_resume 2 True departed = Inr (JoinReturn 0 (Some 7) reaped)
   \<and> PTCB_at reaped 2 = Inl (Memory Dangling)
   \<and> list_all (\<lambda>pcb. 2 \<notin> set (ptcb_list pcb)) (PT reaped)
   \<and> PCB_at departed 2 = Inr (PT departed ! 2)
   \<and> 2 \<in> set (ptcb_list (PT departed ! 2))
   \<and> (\<exists>s3. sys_ThreadJoin 2 3 2 True departed = Inr (JoinReturn 0 (Some 7) s3))"
proof -
  let ?p = "\<lparr>ptcb_exitval = 7, exited = 1, detached = 0, ptcb_refcount = 1\<rparr>"
  have p: "PTCB_at departed 2 = Inr ?p"
    by (simp add: proc_defs proc_fixtures)
  have nd: "detached ?p \<noteq> 1" by simp
  have q: "PCB_at departed 2 = Inr (PT departed ! 2)"
      "2 \<in> set (ptcb_list (PT departed ! 2))" "(2::nat) \<noteq> 3"
    by (simp_all add: proc_defs proc_fixtures)
  from join_delivers_exit[OF departed_reached p p refl refl nd, of True 2 "PT departed ! 2" 3]
    reaped_reached joining_reached departed_reached p q
  show ?thesis by (auto simp: list_all_iff)
qed

lemma orphaned_3: "\<exists>s'. sys_ThreadExit 3 0 5 family = Inr s'"
  by (simp add: proc_defs proc_fixtures)

theorem reparenting_on_exit_witness:
  "\<exists>s' init. sys_ThreadExit 3 0 5 family = Inr s'
     \<and> thread_count (PT family ! 3) = 1 \<and> children_list (PT family ! 3) = [4, 5]
     \<and> exited_list (PT family ! 3) = [5] \<and> parent (PT family ! 3) = Some 2
     \<and> PCB_at s' 1 = Inr init
     \<and> map_sum id parent (PCB_at s' 4) = Inr (Some 1) \<and> 4 \<in> set (children_list init)
     \<and> map_sum id parent (PCB_at s' 5) = Inr (Some 1) \<and> 5 \<in> set (children_list init)
     \<and> broadcasts s' = [exit_cv 0, child_exit 1, child_exit 2]"
proof -
  from orphaned_3 obtain s' where ex: "sys_ThreadExit 3 0 5 family = Inr s'" ..
  have ne: "(3::nat) \<noteq> 1" by simp
  have pcb: "PCB_at family 3 = Inr (PT family ! 3)" by (simp add: PCB_at_def family_def)
  have f: "thread_count (PT family ! 3) = 1" "children_list (PT family ! 3) = [4, 5]"
      "exited_list (PT family ! 3) = [5]" "parent (PT family ! 3) = Some 2"
      "broadcasts family = []"
    by (simp_all add: family_def blank_pcb_def)
  have self: "3 \<notin> set (children_list (PT family ! 3))" using f(2) by simp
  from reparenting_on_exit[OF ne pcb f(1) self ex] f ex show ?thesis by auto
qed

text \<open>
  C8 as stated fails: process 4, whose parent is process 3, exits with its last thread
  while its child 6 lives. The child goes to the initial process, and \<open>child_exit\<close> of
  the initial process is not broadcast.
\<close>

theorem reparenting_on_exit_counterexample:
  "\<exists>s'. sys_ThreadExit 4 1 5 family = Inr s'
     \<and> thread_count (PT family ! 4) = 1 \<and> children_list (PT family ! 4) = [6]
     \<and> map_sum id parent (PCB_at s' 6) = Inr (Some 1)
     \<and> 6 \<in> set (children_list (PT s' ! 1))
     \<and> broadcasts s' = [exit_cv 1, child_exit 3]
     \<and> child_exit 1 \<notin> set (broadcasts s')"
  by (simp add: proc_defs proc_fixtures)

end
